theory Spec2Isabelle
  imports Main
begin

section \<open>Python values shared by the three modules\<close>

text \<open>
  Every exception the modelled code can raise is a value of \<open>error\<close>; a function that
  can raise returns \<open>error + 'a\<close> with \<open>Inl\<close> for the exception.
  \<open>BaseException msg\<close> is \<^verbatim>\<open>raise BaseException(msg)\<close>.
\<close>

datatype error =
    IndexError
  | ZeroDivisionError
  | OverflowError
  | ValueError
  | TypeError
  | UnboundLocalError
  | AttributeError
  | FileNotFoundError
  | BaseException string

subsection \<open>\<^verbatim>\<open>str(int)\<close>, as an f-string renders an integer\<close>

definition digit_char :: "nat \<Rightarrow> char" where
  "digit_char d = ''0123456789'' ! d"

fun show_nat :: "nat \<Rightarrow> string" where
  "show_nat n = (if n < 10 then [digit_char n] else show_nat (n div 10) @ [digit_char (n mod 10)])"

declare show_nat.simps [simp del]

definition show_int :: "int \<Rightarrow> string" where
  "show_int i = (if i < 0 then CHR ''-'' # show_nat (nat (- i)) else show_nat (nat i))"

subsection \<open>\<^verbatim>\<open>math.ceil(a / b)\<close> on integers\<close>

text \<open>
  Python's \<^verbatim>\<open>a / b\<close> on two ints is the IEEE-754 double nearest to the exact quotient
  (ties to the even mantissa); it raises ZeroDivisionError for \<open>b = 0\<close> and OverflowError
  when the rounded quotient does not fit a double. \<^verbatim>\<open>math.ceil\<close> then returns the least
  integer not below that double. A finite double is \<open>m * 2 ^ e\<close> with \<open>m \<le> 2 ^ 53\<close> and
  \<open>- 1074 \<le> e\<close>, so the whole computation is integer arithmetic.
\<close>

fun bit_length :: "nat \<Rightarrow> nat" where
  "bit_length n = (if n = 0 then 0 else Suc (bit_length (n div 2)))"

declare bit_length.simps [simp del]

definition round_half_even :: "nat \<Rightarrow> nat \<Rightarrow> nat" where
  "round_half_even n d =
     (let q = n div d; r = n mod d
      in if 2 * r < d then q else if d < 2 * r then q + 1 else if even q then q else q + 1)"

definition floor_log2_quot :: "nat \<Rightarrow> nat \<Rightarrow> int" where
  \<comment> \<open>\<open>\<lfloor>log2 (n / d)\<rfloor>\<close> for positive \<open>n\<close> and \<open>d\<close>\<close>
  "floor_log2_quot n d =
     (let k = int (bit_length n) - int (bit_length d)
      in if (if 0 \<le> k then d * 2 ^ nat k \<le> n else d \<le> n * 2 ^ nat (- k)) then k else k - 1)"

definition double_of_quot :: "nat \<Rightarrow> nat \<Rightarrow> nat \<times> int" where
  \<comment> \<open>mantissa and exponent of the double nearest to \<open>n / d\<close>, for positive \<open>n\<close> and \<open>d\<close>\<close>
  "double_of_quot n d =
     (let e = max (floor_log2_quot n d - 52) (- 1074);
          m = (if 0 \<le> e then round_half_even n (d * 2 ^ nat e)
               else round_half_even (n * 2 ^ nat (- e)) d)
      in (m, e))"

definition py_ceil_truediv :: "int \<Rightarrow> int \<Rightarrow> error + int" where
  "py_ceil_truediv a b =
     (if b = 0 then Inl ZeroDivisionError
      else if a = 0 then Inr 0
      else (case double_of_quot (nat \<bar>a\<bar>) (nat \<bar>b\<bar>) of (m, e) \<Rightarrow>
        if 1025 \<le> int (bit_length m) + e then Inl OverflowError
        else if 0 \<le> e then Inr ((if (a < 0) \<noteq> (b < 0) then - 1 else 1) * (int m * 2 ^ nat e))
        else if (a < 0) \<noteq> (b < 0) then Inr (- (int m div 2 ^ nat (- e)))
        else Inr (- ((- int m) div 2 ^ nat (- e)))))"

section \<open>SMT-LIB text: \<^verbatim>\<open>SMT/src/build_models_z3.py\<close>\<close>

subsection \<open>Syntax and rendering\<close>

text \<open>
  The script is a list of lines, each one command in s-expression syntax. A term is a
  numeral, a symbol or an application \<^verbatim>\<open>(f a1 ... an)\<close>; \<open>show_sexp\<close> gives back the
  characters the f-strings of the source produce.
\<close>

datatype sexp = Num int | Sym string | App string "sexp list"

datatype command =
    SetLogic string
  | DeclareFun string
  | Assert sexp
  | CheckSat
  | GetModel

fun show_sexp :: "sexp \<Rightarrow> string" where
  "show_sexp (Num n) = show_int n"
| "show_sexp (Sym s) = s"
| "show_sexp (App f args) = ''('' @ f @ concat (map (\<lambda>a. '' '' @ show_sexp a) args) @ '')''"

fun show_command :: "command \<Rightarrow> string" where
  "show_command (SetLogic logic) = ''(set-logic '' @ logic @ '')''"
| "show_command (DeclareFun name) = ''(declare-fun '' @ name @ '' () Int)''"
| "show_command (Assert t) = ''(assert '' @ show_sexp t @ '')''"
| "show_command CheckSat = ''(check-sat)''"
| "show_command GetModel = ''(get-model)''"

definition coord_x :: "nat \<Rightarrow> string" where
  "coord_x i = ''coord_x'' @ show_nat i"

definition coord_y :: "nat \<Rightarrow> string" where
  "coord_y i = ''coord_y'' @ show_nat i"

subsection \<open>Meaning of a script\<close>

text \<open>
  Every declared constant has sort Int, so a model is a function from names to integers.
  A term evaluates to an integer or a Boolean, or to nothing when it is ill-sorted.
  \<^verbatim>\<open>+\<close>, \<^verbatim>\<open>and\<close> and \<^verbatim>\<open>or\<close> take any number of arguments, as the solver reads them.
\<close>

datatype val = IntV int | BoolV bool

fun ints_of :: "val option list \<Rightarrow> int list option" where
  "ints_of [] = Some []"
| "ints_of (Some (IntV n) # vs) = map_option ((#) n) (ints_of vs)"
| "ints_of (_ # vs) = None"

fun bools_of :: "val option list \<Rightarrow> bool list option" where
  "bools_of [] = Some []"
| "bools_of (Some (BoolV b) # vs) = map_option ((#) b) (bools_of vs)"
| "bools_of (_ # vs) = None"

definition int_rel :: "(int \<Rightarrow> int \<Rightarrow> bool) \<Rightarrow> val option list \<Rightarrow> val option" where
  "int_rel r vs = (case vs of [Some (IntV a), Some (IntV b)] \<Rightarrow> Some (BoolV (r a b)) | _ \<Rightarrow> None)"

definition ite_val :: "val option list \<Rightarrow> val option" where
  "ite_val vs =
     (case vs of
        [Some (BoolV c), Some (IntV t), Some (IntV e)] \<Rightarrow> Some (IntV (if c then t else e))
      | [Some (BoolV c), Some (BoolV t), Some (BoolV e)] \<Rightarrow> Some (BoolV (if c then t else e))
      | _ \<Rightarrow> None)"

definition apply_op :: "string \<Rightarrow> val option list \<Rightarrow> val option" where
  "apply_op f vs =
     (if f = ''+'' then map_option (\<lambda>ns. IntV (sum_list ns)) (ints_of vs)
      else if f = ''-'' then
        (case vs of [Some (IntV a), Some (IntV b)] \<Rightarrow> Some (IntV (a - b)) | _ \<Rightarrow> None)
      else if f = ''<='' then int_rel (\<le>) vs
      else if f = ''>='' then int_rel (\<ge>) vs
      else if f = ''<'' then int_rel (<) vs
      else if f = ''='' then int_rel (=) vs
      else if f = ''and'' then map_option (\<lambda>bs. BoolV (list_all id bs)) (bools_of vs)
      else if f = ''or'' then map_option (\<lambda>bs. BoolV (list_ex id bs)) (bools_of vs)
      else if f = ''ite'' then ite_val vs
      else None)"

fun eval :: "(string \<Rightarrow> int) \<Rightarrow> sexp \<Rightarrow> val option" where
  "eval \<sigma> (Num n) = Some (IntV n)"
| "eval \<sigma> (Sym s) = (if s = ''true'' then Some (BoolV True) else Some (IntV (\<sigma> s)))"
| "eval \<sigma> (App f args) = apply_op f (map (eval \<sigma>) args)"

fun holds :: "(string \<Rightarrow> int) \<Rightarrow> command \<Rightarrow> bool" where
  "holds \<sigma> (Assert t) = (eval \<sigma> t = Some (BoolV True))"
| "holds \<sigma> _ = True"

definition satisfies :: "(string \<Rightarrow> int) \<Rightarrow> command list \<Rightarrow> bool" where
  "satisfies \<sigma> cs = list_all (holds \<sigma>) cs"

subsection \<open>The encoder \<open>build_SMTLIB_model\<close>\<close>

text \<open>One definition per f-string of the source; \<open>n\<close> is the length of \<^verbatim>\<open>range(N)\<close>.\<close>

definition areas_of :: "nat \<Rightarrow> int list \<Rightarrow> int list \<Rightarrow> int list" where
  "areas_of n widths heights = map (\<lambda>i. widths ! i * heights ! i) [0..<n]"

definition domain_x :: "int \<Rightarrow> int list \<Rightarrow> nat \<Rightarrow> command" where
  "domain_x W widths i =
     Assert (App ''and'' [App ''>='' [Sym (coord_x i), Num 0],
                          App ''<='' [Sym (coord_x i), Num (W - Min (set widths))]])"

definition domain_y :: "int \<Rightarrow> int list \<Rightarrow> nat \<Rightarrow> command" where
  "domain_y l_up heights i =
     Assert (App ''and'' [App ''>='' [Sym (coord_y i), Num 0],
                          App ''<='' [Sym (coord_y i), Num (l_up - Min (set heights))]])"

definition domain_l :: "int \<Rightarrow> int \<Rightarrow> command" where
  "domain_l l_low l_up =
     Assert (App ''and'' [App ''>='' [Sym ''l'', Num l_low], App ''<='' [Sym ''l'', Num l_up]])"

definition non_overlap :: "int list \<Rightarrow> int list \<Rightarrow> nat \<Rightarrow> nat \<Rightarrow> command" where
  "non_overlap widths heights i j =
     Assert (App ''or''
       [App ''<='' [App ''+'' [Sym (coord_x i), Num (widths ! i)], Sym (coord_x j)],
        App ''<='' [App ''+'' [Sym (coord_y i), Num (heights ! i)], Sym (coord_y j)],
        App ''>='' [App ''-'' [Sym (coord_x i), Num (widths ! j)], Sym (coord_x j)],
        App ''>='' [App ''-'' [Sym (coord_y i), Num (heights ! j)], Sym (coord_y j)]])"

definition boundary :: "int \<Rightarrow> int list \<Rightarrow> int list \<Rightarrow> nat \<Rightarrow> command" where
  "boundary W widths heights i =
     Assert (App ''and''
       [App ''<='' [App ''+'' [Sym (coord_x i), Num (widths ! i)], Num W],
        App ''<='' [App ''+'' [Sym (coord_y i), Num (heights ! i)], Sym ''l'']])"

definition sum_var_w :: "int list \<Rightarrow> int list \<Rightarrow> int \<Rightarrow> nat \<Rightarrow> sexp" where
  "sum_var_w widths heights w i =
     App ''ite''
       [App ''and'' [App ''<='' [Sym (coord_y i), Num w],
                     App ''<'' [Num w, App ''+'' [Sym (coord_y i), Num (heights ! i)]]],
        Num (widths ! i), Num 0]"

definition cumulative_w :: "int \<Rightarrow> nat \<Rightarrow> int list \<Rightarrow> int list \<Rightarrow> int \<Rightarrow> command" where
  "cumulative_w W n widths heights w =
     Assert (App ''<='' [App ''+'' (map (sum_var_w widths heights w) [0..<n]), Num W])"

definition sum_var_h :: "int list \<Rightarrow> int list \<Rightarrow> int \<Rightarrow> nat \<Rightarrow> sexp" where
  "sum_var_h widths heights h i =
     App ''ite''
       [App ''and'' [App ''<='' [Sym (coord_x i), Num h],
                     App ''<'' [Num h, App ''+'' [Sym (coord_x i), Num (widths ! i)]]],
        Num (heights ! i), Num 0]"

definition cumulative_h :: "nat \<Rightarrow> int list \<Rightarrow> int list \<Rightarrow> int \<Rightarrow> command" where
  "cumulative_h n widths heights h =
     Assert (App ''<='' [App ''+'' (map (sum_var_h widths heights h) [0..<n]), Sym ''l''])"

definition same_size :: "int list \<Rightarrow> int list \<Rightarrow> nat \<Rightarrow> nat \<Rightarrow> command" where
  "same_size widths heights i j =
     Assert (App ''ite''
       [App ''and'' [App ''='' [Num (widths ! i), Num (widths ! j)],
                     App ''='' [Num (heights ! i), Num (heights ! j)]],
        App ''<='' [Sym (coord_x i), Sym (coord_x j)],
        Sym ''true''])"

definition origin_x :: "nat \<Rightarrow> command" where
  "origin_x k = Assert (App ''='' [Sym (coord_x k), Num 0])"

definition origin_y :: "nat \<Rightarrow> command" where
  "origin_y k = Assert (App ''='' [Sym (coord_y k), Num 0])"

definition pairs :: "nat \<Rightarrow> (nat \<times> nat) list" where
  \<comment> \<open>the pairs the two nested loops over \<^verbatim>\<open>range(N)\<close> keep with \<^verbatim>\<open>if i < j\<close>, in loop order\<close>
  "pairs n = concat (map (\<lambda>i. map (\<lambda>j. (i, j)) (filter (\<lambda>j. i < j) [0..<n])) [0..<n])"

fun index_of :: "'a list \<Rightarrow> 'a \<Rightarrow> nat" where
  \<comment> \<open>\<^verbatim>\<open>xs.index(v)\<close> for a \<open>v\<close> that occurs in \<open>xs\<close>\<close>
  "index_of [] v = 0"
| "index_of (x # xs) v = (if x = v then 0 else Suc (index_of xs v))"

definition max_area_ind :: "nat \<Rightarrow> int list \<Rightarrow> int list \<Rightarrow> nat" where
  "max_area_ind n widths heights =
     index_of (areas_of n widths heights) (Max (set (areas_of n widths heights)))"

text \<open>
  \<open>script\<close> is the list \<^verbatim>\<open>lines\<close> at the end of the function, given the two bounds;
  \<open>build_commands\<close> is that list for the bounds the function computes, or the exception
  raised on the way: IndexError where \<^verbatim>\<open>widths[i]\<close> or \<^verbatim>\<open>heights[i]\<close> is out of range,
  the errors of the division, ValueError where \<^verbatim>\<open>max(areas)\<close> meets an empty list.
  \<^verbatim>\<open>min(widths)\<close> and \<^verbatim>\<open>min(heights)\<close> are evaluated once per item, hence never on an
  empty list: one item means the first line already read \<^verbatim>\<open>widths[0]\<close> and \<^verbatim>\<open>heights[0]\<close>.
\<close>

definition script ::
  "int \<Rightarrow> nat \<Rightarrow> int list \<Rightarrow> int list \<Rightarrow> string \<Rightarrow> int \<Rightarrow> int \<Rightarrow> command list" where
  \<comment> \<open>the list \<^verbatim>\<open>lines\<close>, in the order of the appends\<close>
  "script W n widths heights logic l_low l_up =
     [SetLogic logic]
     @ map (\<lambda>i. DeclareFun (coord_x i)) [0..<n]
     @ map (\<lambda>i. DeclareFun (coord_y i)) [0..<n]
     @ [DeclareFun ''l'']
     @ map (domain_x W widths) [0..<n]
     @ map (domain_y l_up heights) [0..<n]
     @ [domain_l l_low l_up]
     @ map (\<lambda>(i, j). non_overlap widths heights i j) (pairs n)
     @ map (boundary W widths heights) [0..<n]
     @ map (cumulative_w W n widths heights) widths
     @ map (cumulative_h n widths heights) heights
     @ map (\<lambda>(i, j). same_size widths heights i j) (pairs n)
     @ [origin_x (max_area_ind n widths heights), origin_y (max_area_ind n widths heights)]
     @ [CheckSat, GetModel]"

definition build_commands ::
  "int \<Rightarrow> int \<Rightarrow> int list \<Rightarrow> int list \<Rightarrow> string \<Rightarrow> error + command list" where
  "build_commands W N widths heights logic =
     (let n = nat N in
      if length widths < n \<or> length heights < n then Inl IndexError
      else case py_ceil_truediv (sum_list (areas_of n widths heights)) W of
        Inl e \<Rightarrow> Inl e
      | Inr l_low \<Rightarrow>
          let l_up = sum_list heights in
          if n = 0 then Inl ValueError
          else Inr (script W n widths heights logic l_low l_up))"

text \<open>
  The function returns nothing; its effect is the file \<^verbatim>\<open>./SMT/src/model.smt2\<close>, opened
  with mode \<^verbatim>\<open>w+\<close> (created or truncated) and filled with every line followed by a
  newline. The path is relative and nothing creates the directory, so the \<^verbatim>\<open>open\<close> itself
  can raise: FileNotFoundError when \<^verbatim>\<open>./SMT/src\<close> is missing, or whatever else the
  operating system refuses the path with. The file system holds the contents of the
  files and, for every path, the exception that opening it for writing raises, if any.
  The lines are complete before the file is opened; once it is open the writes are taken
  to succeed.
\<close>

record filesystem =
  contents :: "string \<rightharpoonup> string"
  open_error :: "string \<Rightarrow> error option"

definition model_path :: string where
  "model_path = ''./SMT/src/model.smt2''"

definition render :: "command list \<Rightarrow> string" where
  "render cs = concat (map (\<lambda>c. show_command c @ [CHR 0x0A]) cs)"

definition build_SMTLIB_model ::
  "filesystem \<Rightarrow> int \<Rightarrow> int \<Rightarrow> int list \<Rightarrow> int list \<Rightarrow> string
     \<Rightarrow> (error + unit) \<times> filesystem" where
  "build_SMTLIB_model fs W N widths heights logic =
     (case build_commands W N widths heights logic of
        Inl e \<Rightarrow> (Inl e, fs)
      | Inr cs \<Rightarrow>
          (case open_error fs model_path of
             Some e \<Rightarrow> (Inl e, fs)
           | None \<Rightarrow> (Inr (), fs\<lparr>contents := (contents fs)(model_path \<mapsto> render cs)\<rparr>)))"

text \<open>
  The placement the scenario of the specification proposes for the instance
  \<open>W = 8\<close>, \<open>widths = [4, 4]\<close>, \<open>heights = [3, 5]\<close>: item 1 at the origin, item 0
  to its right at \<open>(4, 0)\<close>, strip height 5.
\<close>

definition sample_model :: "string \<Rightarrow> int" where
  "sample_model s = (if s = ''coord_x0'' then 4 else if s = ''l'' then 5 else 0)"

text \<open>
  The cumulative constraint as the specification words it, to be compared with
  \<open>cumulative_w\<close>: "the sum of heights of all items whose vertical span crosses
  height-level \<open>w\<close> does not exceed \<open>W\<close>". It is not part of the encoder.
\<close>

definition spec_cumulative_w :: "int \<Rightarrow> nat \<Rightarrow> int list \<Rightarrow> int list \<Rightarrow> int \<Rightarrow> command" where
  "spec_cumulative_w W n widths heights w =
     Assert (App ''<=''
       [App ''+'' (map (\<lambda>i. App ''ite''
          [App ''and'' [App ''<='' [Sym (coord_y i), Num w],
                        App ''<'' [Num w, App ''+'' [Sym (coord_y i), Num (heights ! i)]]],
           Num (heights ! i), Num 0]) [0..<n]), Num W])"

text \<open>
  Two items of width 1 and height 3 side by side in a strip of width 2:
  item 0 at \<open>(0, 0)\<close>, item 1 at \<open>(1, 0)\<close>, strip height 3.
\<close>

definition stacked_model :: "string \<Rightarrow> int" where
  "stacked_model s = (if s = ''coord_x1'' then 1 else if s = ''l'' then 3 else 0)"

section \<open>Solutions: \<^verbatim>\<open>utils/types.py\<close>\<close>

text \<open>
  Modelled from the spec: the enumeration \<^verbatim>\<open>StatusEnum\<close> is declared in
  \<^verbatim>\<open>utils/types.py\<close>, which is not among the sources. The specification lists its
  members: OPTIMAL, FEASIBLE, NO_SOLUTION_FOUND, ERROR, INFEASIBLE.
\<close>

datatype StatusEnum = OPTIMAL | FEASIBLE | NO_SOLUTION_FOUND | ERROR | INFEASIBLE

text \<open>
  Modelled from the spec: \<^verbatim>\<open>ModelType\<close> and \<^verbatim>\<open>SolverMIP\<close> are declared in
  \<^verbatim>\<open>utils/types.py\<close> too. The members are the ones the sources name; \<open>OTHER_MODEL\<close> and
  \<open>OTHER_SOLVER\<close> stand for any other value an untyped caller passes, the case the
  \<^verbatim>\<open>else\<close> branches of \<^verbatim>\<open>run_mip_solver\<close> are written for.
\<close>

datatype ModelType = BASE | ROTATION | OTHER_MODEL

datatype SolverMIP = CPLEX | MOSEK | MINIZINC | OTHER_SOLVER

text \<open>
  Modelled from the spec: the class \<^verbatim>\<open>Solution\<close> of \<^verbatim>\<open>utils/types.py\<close>. The specification
  gives its fields (status, height, solve time, coords, nullable rotation, and the echoed
  instance fields) and its life cycle: created empty, then populated. A field that has not
  been set is \<open>None\<close>. \<^verbatim>\<open>circuits\<close> is the list of \<^verbatim>\<open>[width, height]\<close> pairs; \<^verbatim>\<open>coords\<close>
  is the dictionary with the two lists \<^verbatim>\<open>"x"\<close> and \<^verbatim>\<open>"y"\<close>, whose entries start as \<open>None\<close>.
  The type \<open>'t\<close> is whatever \<^verbatim>\<open>compute_solve_time\<close> returns.
\<close>

record 't Solution =
  status :: "StatusEnum option"
  input_name :: "string option"
  width :: "int option"
  n_circuits :: "int option"
  circuits :: "(int \<times> int) list option"
  height :: "int option"
  solve_time :: "'t option"
  coords :: "(int option list \<times> int option list) option"
  rotation :: "bool list option"

definition empty_solution :: "'t Solution" where
  \<comment> \<open>\<^verbatim>\<open>Solution()\<close>\<close>
  "empty_solution =
     \<lparr>status = None, input_name = None, width = None, n_circuits = None, circuits = None,
      height = None, solve_time = None, coords = None, rotation = None\<rparr>"

text \<open>
  Modelled from the spec: the predicate \<^verbatim>\<open>SOLUTION_ADMISSABLE\<close> of \<^verbatim>\<open>utils/types.py\<close>;
  a status is admissible when it is OPTIMAL or FEASIBLE.
\<close>

definition SOLUTION_ADMISSABLE :: "StatusEnum option \<Rightarrow> bool" where
  "SOLUTION_ADMISSABLE s = (s = Some OPTIMAL \<or> s = Some FEASIBLE)"

section \<open>The reporter: \<^verbatim>\<open>utils/solution_log.py\<close>\<close>

definition FEASIBLE_MSG :: string where
  "FEASIBLE_MSG = ''A solution has been found, but not an optimal one''"

definition OPTIMAL_MSG :: string where
  "OPTIMAL_MSG = ''Optimal solution has been found''"

definition NO_SOLUTION_MSG :: string where
  "NO_SOLUTION_MSG = ''No solution has been found''"

definition GENERIC_MSG :: string where
  "GENERIC_MSG = ''Infeasible solution''"

definition ERROR_MSG :: string where
  "ERROR_MSG = ''Error during execution''"

text \<open>
  One constructor per \<^verbatim>\<open>print\<close> call of \<^verbatim>\<open>print_logging\<close>, holding the values the
  f-string formats: the status message; \<^verbatim>\<open>Solved {input_name} with W={width} and H={height}\<close>;
  \<^verbatim>\<open>Time: {solve_time}\<close>; and the geometry line \<^verbatim>\<open>{w} {h}, {x} {y}\<close> of one circuit.
\<close>

datatype 't out_line =
    Message string
  | Solved "string option" "int option" "int option"
  | Time "'t option"
  | Geometry int int "int option" "int option"


definition status_message :: "StatusEnum option \<Rightarrow> string" where
  "status_message s =
     (if s = Some FEASIBLE then FEASIBLE_MSG
      else if s = Some OPTIMAL then OPTIMAL_MSG
      else if s = Some NO_SOLUTION_FOUND then NO_SOLUTION_MSG
      else if s = Some ERROR then ERROR_MSG
      else GENERIC_MSG)"

definition py_get :: "'a list \<Rightarrow> nat \<Rightarrow> error + 'a" where
  \<comment> \<open>\<^verbatim>\<open>xs[i]\<close> for an index taken from a \<^verbatim>\<open>range\<close>\<close>
  "py_get xs i = (if i < length xs then Inr (xs ! i) else Inl IndexError)"

definition bind :: "error + 'a \<Rightarrow> ('a \<Rightarrow> error + 'b) \<Rightarrow> error + 'b" where
  "bind m f = (case m of Inl e \<Rightarrow> Inl e | Inr x \<Rightarrow> f x)"

definition rotated :: "'t Solution \<Rightarrow> nat \<Rightarrow> error + bool" where
  \<comment> \<open>\<^verbatim>\<open>solution.rotation and solution.rotation[i]\<close>: \<open>None\<close> and the empty list are falsy\<close>
  "rotated sol i =
     (case rotation sol of
        None \<Rightarrow> Inr False
      | Some r \<Rightarrow> if r = [] then Inr False else py_get r i)"

definition geometry_line :: "'t Solution \<Rightarrow> nat \<Rightarrow> error + 't out_line" where
  "geometry_line sol i =
     bind (rotated sol i) (\<lambda>rot.
     bind (case circuits sol of None \<Rightarrow> Inl TypeError | Some cs \<Rightarrow> py_get cs i) (\<lambda>(w, h).
     bind (case coords sol of None \<Rightarrow> Inl TypeError | Some (xs, ys) \<Rightarrow>
             bind (py_get xs i) (\<lambda>x. bind (py_get ys i) (\<lambda>y. Inr (x, y)))) (\<lambda>(x, y).
     Inr (Geometry (if rot then h else w) (if rot then w else h) x y))))"

fun print_geometry :: "'t Solution \<Rightarrow> nat list \<Rightarrow> 't out_line list \<times> (error + unit)" where
  "print_geometry sol [] = ([], Inr ())"
| "print_geometry sol (i # is) =
     (case geometry_line sol i of
        Inl e \<Rightarrow> ([], Inl e)
      | Inr ln \<Rightarrow> (case print_geometry sol is of (out, r) \<Rightarrow> (ln # out, r)))"

text \<open>
  \<open>print_logging\<close> returns the lines printed, in order, and how the call ended. A line
  printed before an exception stays printed.
\<close>

definition print_logging :: "'t Solution \<Rightarrow> 't out_line list \<times> (error + unit)" where
  "print_logging solution =
     (if SOLUTION_ADMISSABLE (status solution) then
        (case (case n_circuits solution of
                 None \<Rightarrow> ([], Inl TypeError)
               | Some n \<Rightarrow> print_geometry solution [0..<nat n]) of
           (out, r) \<Rightarrow>
             (Message (status_message (status solution))
              # Solved (input_name solution) (width solution) (height solution)
              # Time (solve_time solution)
              # out, r))
      else ([Message (status_message (status solution))], Inr ()))"

section \<open>The MIP driver: \<^verbatim>\<open>MIP/src/model.py\<close>\<close>

subsection \<open>Collaborators\<close>

text \<open>
  A number as the solver hands it back in \<^verbatim>\<open>varValue\<close> or as the objective value:
  \<open>None\<close>, a finite double \<open>m * 2 ^ e\<close> (an int is \<open>PyFloat n 0\<close>), NaN or an infinity.
  \<^verbatim>\<open>round\<close> raises TypeError, ValueError and OverflowError on the three others and
  rounds a finite double to the nearest integer, ties to the even one.
\<close>

datatype pynumber = PyNone | PyFloat int int | PyNaN | PyInf

definition py_round :: "pynumber \<Rightarrow> error + int" where
  "py_round v =
     (case v of
        PyNone \<Rightarrow> Inl TypeError
      | PyNaN \<Rightarrow> Inl ValueError
      | PyInf \<Rightarrow> Inl OverflowError
      | PyFloat m e \<Rightarrow>
          if 0 \<le> e then Inr (m * 2 ^ nat e)
          else Inr (sgn m * int (round_half_even (nat \<bar>m\<bar>) (2 ^ nat (- e)))))"

text \<open>The solved problem: what \<^verbatim>\<open>run_mip_solver\<close> reads from \<^verbatim>\<open>prob\<close> after \<^verbatim>\<open>prob.solve\<close>.\<close>

record 'q solved =
  sol_status :: int
  solutionTime :: 'q
  objective :: pynumber
  variables :: "(string \<times> pynumber) list"

text \<open>
  The functions \<^verbatim>\<open>run_mip_solver\<close> and \<^verbatim>\<open>compute_solution\<close> call and the sources do not
  hold, each with the exception it may raise. \<open>extract_input\<close> is \<^verbatim>\<open>format_data_file\<close>
  followed by \<^verbatim>\<open>extract_input_from_txt\<close>; \<open>solve\<close> is \<^verbatim>\<open>prob.solve(solver)\<close>;
  \<open>status_enum\<close> is the constructor \<^verbatim>\<open>StatusEnum(code)\<close>, whose codes are declared in
  \<^verbatim>\<open>utils/types.py\<close>; \<open>int_of_str\<close> is the builtin \<^verbatim>\<open>int\<close> on a string, left open because
  no claim depends on which strings it accepts.
\<close>

record ('p, 's, 'q, 't) backend =
  extract_input :: "string \<Rightarrow> error + (int \<times> int \<times> int list \<times> int list)"
  build_pulp_model :: "int \<Rightarrow> int \<Rightarrow> int list \<Rightarrow> int list \<Rightarrow> error + 'p"
  build_pulp_rotation_model :: "int \<Rightarrow> int \<Rightarrow> int list \<Rightarrow> int list \<Rightarrow> error + 'p"
  configure_cplex_solver :: "int \<Rightarrow> error + 's"
  configure_mosek_solver :: "int \<Rightarrow> error + 's"
  solve :: "'p \<Rightarrow> 's \<Rightarrow> error + 'q solved"
  status_enum :: "int \<Rightarrow> error + StatusEnum"
  compute_solve_time :: "'q \<Rightarrow> error + 't"
  int_of_str :: "string \<Rightarrow> error + int"
  format_plot_file :: "string \<Rightarrow> ModelType \<Rightarrow> error + string"
  run_minizinc :: "string \<Rightarrow> ModelType \<Rightarrow> int \<Rightarrow> error + 't Solution"

subsection \<open>\<open>run_mip_solver\<close>\<close>

definition starts_with :: "string \<Rightarrow> string \<Rightarrow> bool" where
  \<comment> \<open>\<^verbatim>\<open>s.startswith(p)\<close>\<close>
  "starts_with p s = (take (length p) s = p)"

definition py_set :: "'a list \<Rightarrow> int \<Rightarrow> 'a \<Rightarrow> error + 'a list" where
  \<comment> \<open>\<^verbatim>\<open>xs[k] = v\<close>: a negative index counts from the end\<close>
  "py_set xs k v =
     (let n = int (length xs); j = (if k < 0 then k + n else k)
      in if 0 \<le> j \<and> j < n then Inr (xs[nat j := v]) else Inl IndexError)"

text \<open>
  The loop over \<^verbatim>\<open>prob.variables()\<close>. The state is the three lists \<^verbatim>\<open>rotation\<close>,
  \<^verbatim>\<open>coords["x"]\<close> and \<^verbatim>\<open>coords["y"]\<close>. In an assignment Python evaluates the right-hand
  side first, then the index.
\<close>

fun read_variables ::
  "(string \<Rightarrow> error + int) \<Rightarrow> (string \<times> pynumber) list
     \<Rightarrow> bool list \<times> int option list \<times> int option list
     \<Rightarrow> error + (bool list \<times> int option list \<times> int option list)" where
  "read_variables int_of [] acc = Inr acc"
| "read_variables int_of ((name, v) # vs) (rot, xs, ys) =
     (if starts_with ''coord_x'' name then
        bind (py_round v) (\<lambda>r. bind (int_of (drop 8 name)) (\<lambda>k. bind (py_set xs k (Some r)) (\<lambda>xs'.
          read_variables int_of vs (rot, xs', ys))))
      else if starts_with ''coord_y'' name then
        bind (py_round v) (\<lambda>r. bind (int_of (drop 8 name)) (\<lambda>k. bind (py_set ys k (Some r)) (\<lambda>ys'.
          read_variables int_of vs (rot, xs, ys'))))
      else if starts_with ''rot'' name then
        bind (py_round v) (\<lambda>r. bind (int_of (drop 4 name)) (\<lambda>k. bind (py_set rot k (r \<noteq> 0)) (\<lambda>rot'.
          read_variables int_of vs (rot', xs, ys))))
      else read_variables int_of vs (rot, xs, ys))"

definition decode ::
  "('p, 's, 'q, 't) backend \<Rightarrow> 't Solution \<Rightarrow> int \<Rightarrow> 'q solved \<Rightarrow> error + 't Solution" where
  \<comment> \<open>from \<^verbatim>\<open>sol.status = StatusEnum(prob.sol_status)\<close> to \<^verbatim>\<open>return sol\<close>\<close>
  "decode B sol N res =
     bind (status_enum B (sol_status res)) (\<lambda>st.
     bind (compute_solve_time B (solutionTime res)) (\<lambda>t.
       if SOLUTION_ADMISSABLE (Some st) then
         bind (py_round (objective res)) (\<lambda>h.
         bind (read_variables (int_of_str B) (variables res)
                 (replicate (nat N) False, replicate (nat N) None, replicate (nat N) None))
           (\<lambda>(rot, xs, ys).
              Inr (sol\<lparr>status := Some st, solve_time := Some t, height := Some h,
                       coords := Some (xs, ys),
                       rotation := (if 0 < length rot then Some rot else None)\<rparr>)))
       else Inr (sol\<lparr>status := Some st, solve_time := Some t\<rparr>)))"

definition select_model ::
  "('p, 's, 'q, 't) backend \<Rightarrow> ModelType \<Rightarrow> int \<Rightarrow> int \<Rightarrow> int list \<Rightarrow> int list \<Rightarrow> error + 'p" where
  "select_model B model_type W N widths heights =
     (if model_type = BASE then build_pulp_model B W N widths heights
      else if model_type = ROTATION then build_pulp_rotation_model B W N widths heights
      else Inl (BaseException ''Model type not available''))"

definition select_solver :: "('p, 's, 'q, 't) backend \<Rightarrow> SolverMIP \<Rightarrow> int \<Rightarrow> error + 's" where
  "select_solver B solver timeout =
     (if solver = CPLEX then configure_cplex_solver B timeout
      else if solver = MOSEK then configure_mosek_solver B timeout
      else Inl (BaseException ''Solver not available''))"

definition instance_fields :: "string \<Rightarrow> int \<Rightarrow> int \<Rightarrow> int list \<Rightarrow> int list \<Rightarrow> 't Solution" where
  \<comment> \<open>\<^verbatim>\<open>sol\<close> after the four assignments that echo the instance\<close>
  "instance_fields name W N widths heights =
     empty_solution
       \<lparr>input_name := Some name, width := Some W, n_circuits := Some N,
        circuits := Some (map (\<lambda>i. (widths ! i, heights ! i)) [0..<nat N])\<rparr>"

text \<open>
  \<open>run_mip_solver\<close> returns the exceptions it logged with \<^verbatim>\<open>logging.error\<close> and either the
  exception it raised or the solution it returned.
\<close>

definition run_mip_solver ::
  "('p, 's, 'q, 't) backend \<Rightarrow> string \<Rightarrow> ModelType \<Rightarrow> SolverMIP \<Rightarrow> int
     \<Rightarrow> error list \<times> (error + 't Solution)" where
  "run_mip_solver B name model_type solver timeout =
     (case extract_input B name of
        Inl e \<Rightarrow> ([], Inl e)
      | Inr (W, N, widths, heights) \<Rightarrow>
          if length widths < nat N \<or> length heights < nat N then ([], Inl IndexError)
          else (case select_model B model_type W N widths heights of
            Inl e \<Rightarrow> ([], Inl e)
          | Inr prob \<Rightarrow>
              (case select_solver B solver timeout of
                 Inl e \<Rightarrow> ([], Inl e)
               | Inr cfg \<Rightarrow>
                   (case solve B prob cfg of
                      Inl err \<Rightarrow>
                        ([err], Inr ((instance_fields name W N widths heights)\<lparr>status := Some ERROR\<rparr>))
                    | Inr res \<Rightarrow>
                        ([], decode B (instance_fields name W N widths heights) N res)))))"

subsection \<open>\<open>compute_solution\<close>\<close>

text \<open>
  A call binds its positional arguments to the parameters before the body runs:
  \<^verbatim>\<open>print_logging\<close> has the single parameter \<^verbatim>\<open>solution\<close>, so a call with any other number
  of arguments raises TypeError and prints nothing.
\<close>

datatype 't pyarg = SolutionArg "'t Solution" | BoolArg bool

definition call_print_logging :: "'t pyarg list \<Rightarrow> 't out_line list \<times> (error + unit)" where
  "call_print_logging args =
     (case args of
        [SolutionArg sol] \<Rightarrow> print_logging sol
      | [BoolArg b] \<Rightarrow> ([], Inl AttributeError)
      | _ \<Rightarrow> ([], Inl TypeError))"

text \<open>What \<^verbatim>\<open>compute_solution\<close> does to the outside, in order.\<close>

datatype 't event = Logged error | Printed "'t out_line" | Plotted "'t Solution" string

definition find_solution ::
  "('p, 's, 'q, 't) backend \<Rightarrow> string \<Rightarrow> ModelType \<Rightarrow> SolverMIP \<Rightarrow> int
     \<Rightarrow> 't event list \<times> (error + 't Solution option)" where
  \<comment> \<open>the \<^verbatim>\<open>if\<close>/\<^verbatim>\<open>elif\<close> that binds \<^verbatim>\<open>sol\<close>; \<open>None\<close> when neither branch runs\<close>
  "find_solution B name model_type solver timeout =
     (if solver = MINIZINC then
        ([], map_sum id Some (run_minizinc B name model_type timeout))
      else if solver = MOSEK \<or> solver = CPLEX then
        (case run_mip_solver B name model_type solver timeout of
           (errs, r) \<Rightarrow> (map Logged errs, map_sum id Some r))
      else ([], Inr None))"

definition compute_solution ::
  "('p, 's, 'q, 't) backend \<Rightarrow> string \<Rightarrow> ModelType \<Rightarrow> SolverMIP \<Rightarrow> int \<Rightarrow> bool
     \<Rightarrow> 't event list \<times> (error + 't Solution)" where
  "compute_solution B name model_type solver timeout verbose =
     (case format_plot_file B name model_type of
        Inl e \<Rightarrow> ([], Inl e)
      | Inr plot_file \<Rightarrow>
          (case find_solution B name model_type solver timeout of
             (evs, Inl e) \<Rightarrow> (evs, Inl e)
           | (evs, Inr None) \<Rightarrow> (evs, Inl UnboundLocalError)
           | (evs, Inr (Some sol)) \<Rightarrow>
               (case call_print_logging [SolutionArg sol, BoolArg verbose] of
                  (out, Inl e) \<Rightarrow> (evs @ map Printed out, Inl e)
                | (out, Inr u) \<Rightarrow> (evs @ map Printed out @ [Plotted sol plot_file], Inr sol))))"

subsection \<open>A backend to run the driver on\<close>

text \<open>
  The collaborators for the instance \<open>W = 8\<close>, \<open>widths = [4, 4]\<close>, \<open>heights = [3, 5]\<close>, with
  the outcome of \<^verbatim>\<open>prob.solve\<close> as a parameter, and a solved problem that reports the
  placement of \<open>sample_model\<close> with native status 1, read as OPTIMAL.
\<close>

definition demo_backend :: "error + int solved \<Rightarrow> (unit, unit, int, int) backend" where
  "demo_backend outcome =
     \<lparr>extract_input = (\<lambda>name. Inr (8, 2, [4, 4], [3, 5])),
      build_pulp_model = (\<lambda>W N widths heights. Inr ()),
      build_pulp_rotation_model = (\<lambda>W N widths heights. Inr ()),
      configure_cplex_solver = (\<lambda>timeout. Inr ()),
      configure_mosek_solver = (\<lambda>timeout. Inr ()),
      solve = (\<lambda>prob cfg. outcome),
      status_enum = (\<lambda>code. if code = 1 then Inr OPTIMAL else Inl ValueError),
      compute_solve_time = (\<lambda>seconds. Inr seconds),
      int_of_str = (\<lambda>s. if s = ''0'' then Inr 0 else if s = ''1'' then Inr 1 else Inl ValueError),
      format_plot_file = (\<lambda>name model_type. Inr ''plot''),
      run_minizinc = (\<lambda>name model_type timeout. Inl ValueError)\<rparr>"

definition demo_solved :: "int solved" where
  "demo_solved =
     \<lparr>sol_status = 1, solutionTime = 3, objective = PyFloat 5 0,
      variables = [(''coord_x_0'', PyFloat 4 0), (''coord_y_0'', PyFloat 0 0),
                   (''coord_x_1'', PyFloat 0 0), (''coord_y_1'', PyFloat 0 0),
                   (''l'', PyFloat 5 0)]\<rparr>"

text \<open>The same collaborators for an instance file that does not exist: the loader raises.\<close>

definition missing_instance_backend :: "(unit, unit, int, int) backend" where
  "missing_instance_backend =
     (demo_backend (Inr demo_solved))\<lparr>extract_input := (\<lambda>name. Inl FileNotFoundError)\<rparr>"

section \<open>Properties of the SMT encoder\<close>

lemma coord_x_not_true [simp]: "coord_x i \<noteq> ''true''"
  by (simp add: coord_x_def)

lemma coord_y_not_true [simp]: "coord_y i \<noteq> ''true''"
  by (simp add: coord_y_def)

lemma ints_of_map [simp]: "ints_of (map (\<lambda>t. Some (IntV (f t))) ts) = Some (map f ts)"
  by (induction ts) simp_all

lemma holds_domain_x:
  "holds \<sigma> (domain_x W widths i) \<longleftrightarrow> 0 \<le> \<sigma> (coord_x i) \<and> \<sigma> (coord_x i) \<le> W - Min (set widths)"
  by (simp add: domain_x_def apply_op_def int_rel_def)

lemma holds_domain_y:
  "holds \<sigma> (domain_y l_up heights i) \<longleftrightarrow> 0 \<le> \<sigma> (coord_y i) \<and> \<sigma> (coord_y i) \<le> l_up - Min (set heights)"
  by (simp add: domain_y_def apply_op_def int_rel_def)

lemma holds_domain_l:
  "holds \<sigma> (domain_l l_low l_up) \<longleftrightarrow> l_low \<le> \<sigma> ''l'' \<and> \<sigma> ''l'' \<le> l_up"
  by (simp add: domain_l_def apply_op_def int_rel_def)

lemma holds_non_overlap:
  "holds \<sigma> (non_overlap widths heights i j) \<longleftrightarrow>
     \<sigma> (coord_x i) + widths ! i \<le> \<sigma> (coord_x j) \<or>
     \<sigma> (coord_y i) + heights ! i \<le> \<sigma> (coord_y j) \<or>
     \<sigma> (coord_x i) - widths ! j \<ge> \<sigma> (coord_x j) \<or>
     \<sigma> (coord_y i) - heights ! j \<ge> \<sigma> (coord_y j)"
  by (simp add: non_overlap_def apply_op_def int_rel_def)

lemma holds_boundary:
  "holds \<sigma> (boundary W widths heights i) \<longleftrightarrow>
     \<sigma> (coord_x i) + widths ! i \<le> W \<and> \<sigma> (coord_y i) + heights ! i \<le> \<sigma> ''l''"
  by (simp add: boundary_def apply_op_def int_rel_def)

lemma eval_sum_var_w:
  "eval \<sigma> (sum_var_w widths heights w i) =
     Some (IntV (if \<sigma> (coord_y i) \<le> w \<and> w < \<sigma> (coord_y i) + heights ! i then widths ! i else 0))"
  by (simp add: sum_var_w_def apply_op_def int_rel_def ite_val_def)

lemma eval_sum_var_h:
  "eval \<sigma> (sum_var_h widths heights h i) =
     Some (IntV (if \<sigma> (coord_x i) \<le> h \<and> h < \<sigma> (coord_x i) + widths ! i then heights ! i else 0))"
  by (simp add: sum_var_h_def apply_op_def int_rel_def ite_val_def)

lemma holds_cumulative_w:
  "holds \<sigma> (cumulative_w W n widths heights w) \<longleftrightarrow>
     (\<Sum>i\<leftarrow>[0..<n]. if \<sigma> (coord_y i) \<le> w \<and> w < \<sigma> (coord_y i) + heights ! i then widths ! i else 0) \<le> W"
  by (simp add: cumulative_w_def apply_op_def int_rel_def eval_sum_var_w comp_def)

lemma holds_cumulative_h:
  "holds \<sigma> (cumulative_h n widths heights h) \<longleftrightarrow>
     (\<Sum>i\<leftarrow>[0..<n]. if \<sigma> (coord_x i) \<le> h \<and> h < \<sigma> (coord_x i) + widths ! i then heights ! i else 0) \<le> \<sigma> ''l''"
  by (simp add: cumulative_h_def apply_op_def int_rel_def eval_sum_var_h comp_def)

lemma holds_same_size:
  "holds \<sigma> (same_size widths heights i j) \<longleftrightarrow>
     (widths ! i = widths ! j \<and> heights ! i = heights ! j \<longrightarrow> \<sigma> (coord_x i) \<le> \<sigma> (coord_x j))"
  by (auto simp: same_size_def apply_op_def int_rel_def ite_val_def)

lemma holds_origin_x: "holds \<sigma> (origin_x k) \<longleftrightarrow> \<sigma> (coord_x k) = 0"
  by (simp add: origin_x_def apply_op_def int_rel_def)

lemma holds_origin_y: "holds \<sigma> (origin_y k) \<longleftrightarrow> \<sigma> (coord_y k) = 0"
  by (simp add: origin_y_def apply_op_def int_rel_def)

lemma set_pairs: "set (pairs n) = {(i, j). i < j \<and> j < n}"
proof -
  have "(a, b) \<in> set (pairs n) \<longleftrightarrow> a < b \<and> b < n" for a b
    by (auto simp: pairs_def)
  then show ?thesis by auto
qed

lemma satisfies_script:
  "satisfies \<sigma> (script W n widths heights logic l_low l_up) \<longleftrightarrow>
     (\<forall>i<n. holds \<sigma> (domain_x W widths i)) \<and>
     (\<forall>i<n. holds \<sigma> (domain_y l_up heights i)) \<and>
     holds \<sigma> (domain_l l_low l_up) \<and>
     (\<forall>i j. i < j \<and> j < n \<longrightarrow> holds \<sigma> (non_overlap widths heights i j)) \<and>
     (\<forall>i<n. holds \<sigma> (boundary W widths heights i)) \<and>
     (\<forall>w\<in>set widths. holds \<sigma> (cumulative_w W n widths heights w)) \<and>
     (\<forall>h\<in>set heights. holds \<sigma> (cumulative_h n widths heights h)) \<and>
     (\<forall>i j. i < j \<and> j < n \<longrightarrow> holds \<sigma> (same_size widths heights i j)) \<and>
     holds \<sigma> (origin_x (max_area_ind n widths heights)) \<and>
     holds \<sigma> (origin_y (max_area_ind n widths heights))"
  by (auto simp: satisfies_def script_def list_all_iff set_pairs)

lemma build_commands_Inr:
  "build_commands W N widths heights logic = Inr cs \<longleftrightarrow>
     0 < nat N \<and> nat N \<le> length widths \<and> nat N \<le> length heights \<and>
     (\<exists>l_low. py_ceil_truediv (sum_list (areas_of (nat N) widths heights)) W = Inr l_low \<and>
        cs = script W (nat N) widths heights logic l_low (sum_list heights))"
  by (auto simp: build_commands_def Let_def split: sum.splits)


lemmas eval_defs = py_ceil_truediv_def double_of_quot_def floor_log2_quot_def bit_length.simps
  round_half_even_def Let_def areas_of_def max_area_ind_def coord_x_def coord_y_def
  show_nat.simps digit_char_def upt_rec

lemmas script_defs = pairs_def domain_x_def domain_y_def domain_l_def non_overlap_def
  boundary_def cumulative_w_def cumulative_h_def sum_var_w_def sum_var_h_def same_size_def
  origin_x_def origin_y_def

text \<open>The rounding of \<^verbatim>\<open>math.ceil(a / b)\<close> on a few inputs, as the interpreter gives them.\<close>

lemma py_ceil_truediv_examples:
  "py_ceil_truediv 32 8 = Inr 4"
  "py_ceil_truediv 33 8 = Inr 5"
  "py_ceil_truediv 1 3 = Inr 1"
  "py_ceil_truediv (- 33) 8 = Inr (- 4)"
  "py_ceil_truediv (- 1) 3 = Inr 0"
  "py_ceil_truediv 7 0 = Inl ZeroDivisionError"
  "py_ceil_truediv 9007199254740993 1 = Inr 9007199254740992"
  "py_ceil_truediv 9007199254740995 1 = Inr 9007199254740996"
  by (simp_all add: eval_defs)

lemma sample_commands:
  "build_commands 8 2 [4, 4] [3, 5] logic = Inr (script 8 2 [4, 4] [3, 5] logic 4 8)"
  by (simp add: build_commands_def eval_defs)

lemma sample_satisfies: "satisfies sample_model (script 8 2 [4, 4] [3, 5] logic 4 8)"
  by (simp add: satisfies_def script_def script_defs apply_op_def int_rel_def ite_val_def
      sample_model_def eval_defs)

text \<open>The text of the script for the instance of the scenario, line by line.\<close>

lemma sample_lines:
  "map show_command (script 8 2 [4, 4] [3, 5] ''LIA'' 4 8) =
     [''(set-logic LIA)'',
      ''(declare-fun coord_x0 () Int)'',
      ''(declare-fun coord_x1 () Int)'',
      ''(declare-fun coord_y0 () Int)'',
      ''(declare-fun coord_y1 () Int)'',
      ''(declare-fun l () Int)'',
      ''(assert (and (>= coord_x0 0) (<= coord_x0 4)))'',
      ''(assert (and (>= coord_x1 0) (<= coord_x1 4)))'',
      ''(assert (and (>= coord_y0 0) (<= coord_y0 5)))'',
      ''(assert (and (>= coord_y1 0) (<= coord_y1 5)))'',
      ''(assert (and (>= l 4) (<= l 8)))'',
      ''(assert (or (<= (+ coord_x0 4) coord_x1) (<= (+ coord_y0 3) coord_y1) (>= (- coord_x0 4) coord_x1) (>= (- coord_y0 5) coord_y1)))'',
      ''(assert (and (<= (+ coord_x0 4) 8) (<= (+ coord_y0 3) l)))'',
      ''(assert (and (<= (+ coord_x1 4) 8) (<= (+ coord_y1 5) l)))'',
      ''(assert (<= (+ (ite (and (<= coord_y0 4) (< 4 (+ coord_y0 3))) 4 0) (ite (and (<= coord_y1 4) (< 4 (+ coord_y1 5))) 4 0)) 8))'',
      ''(assert (<= (+ (ite (and (<= coord_y0 4) (< 4 (+ coord_y0 3))) 4 0) (ite (and (<= coord_y1 4) (< 4 (+ coord_y1 5))) 4 0)) 8))'',
      ''(assert (<= (+ (ite (and (<= coord_x0 3) (< 3 (+ coord_x0 4))) 3 0) (ite (and (<= coord_x1 3) (< 3 (+ coord_x1 4))) 5 0)) l))'',
      ''(assert (<= (+ (ite (and (<= coord_x0 5) (< 5 (+ coord_x0 4))) 3 0) (ite (and (<= coord_x1 5) (< 5 (+ coord_x1 4))) 5 0)) l))'',
      ''(assert (ite (and (= 4 4) (= 3 5)) (<= coord_x0 coord_x1) true))'',
      ''(assert (= coord_x1 0))'',
      ''(assert (= coord_y1 0))'',
      ''(check-sat)'',
      ''(get-model)'']"
  by (simp add: script_def script_defs eval_defs show_int_def)

text \<open>
  Claim C1. For an instance with \<open>N \<ge> 1\<close>, positive widths and heights and every width
  at most \<open>W\<close>, every model of the generated script keeps the rectangles pairwise
  separated (for each pair \<open>i < j\<close> one of the four disjuncts of the non-overlap
  constraint holds) and inside the strip: both coordinates are non-negative,
  \<open>x + width \<le> W\<close> and \<open>y + height \<le> l\<close>.
\<close>

theorem placements_separated_and_inside:
  assumes "1 \<le> N" and "length widths = nat N" and "length heights = nat N"
    and "\<forall>w\<in>set widths. 0 < w \<and> w \<le> W" and "\<forall>h\<in>set heights. 0 < h"
    and "build_commands W N widths heights logic = Inr cs"
    and "satisfies \<sigma> cs"
  shows "(\<forall>i j. i < j \<and> j < nat N \<longrightarrow>
            \<sigma> (coord_x i) + widths ! i \<le> \<sigma> (coord_x j) \<or>
            \<sigma> (coord_y i) + heights ! i \<le> \<sigma> (coord_y j) \<or>
            \<sigma> (coord_x i) - widths ! j \<ge> \<sigma> (coord_x j) \<or>
            \<sigma> (coord_y i) - heights ! j \<ge> \<sigma> (coord_y j)) \<and>
         (\<forall>i<nat N. 0 \<le> \<sigma> (coord_x i) \<and> 0 \<le> \<sigma> (coord_y i) \<and>
            \<sigma> (coord_x i) + widths ! i \<le> W \<and> \<sigma> (coord_y i) + heights ! i \<le> \<sigma> ''l'')"
proof -
  from assms(6) obtain l_low where
    cs: "cs = script W (nat N) widths heights logic l_low (sum_list heights)"
    unfolding build_commands_Inr by blast
  from assms(7) have sat: "satisfies \<sigma> (script W (nat N) widths heights logic l_low (sum_list heights))"
    unfolding cs .
  have sep: "\<forall>i j. i < j \<and> j < nat N \<longrightarrow> holds \<sigma> (non_overlap widths heights i j)"
    using sat unfolding satisfies_script by blast
  have dx: "\<forall>i<nat N. holds \<sigma> (domain_x W widths i)"
    and dy: "\<forall>i<nat N. holds \<sigma> (domain_y (sum_list heights) heights i)"
    and bd: "\<forall>i<nat N. holds \<sigma> (boundary W widths heights i)"
    using sat unfolding satisfies_script by blast+
  show ?thesis
    using sep dx dy bd
    unfolding holds_non_overlap holds_domain_x holds_domain_y holds_boundary by blast
qed

theorem placements_separated_and_inside_witness:
  "build_commands 8 2 [4, 4] [3, 5] ''LIA'' = Inr (script 8 2 [4, 4] [3, 5] ''LIA'' 4 8) \<and>
   satisfies sample_model (script 8 2 [4, 4] [3, 5] ''LIA'' 4 8) \<and>
   sample_model (coord_x 0) - [4, 4] ! 1 \<ge> sample_model (coord_x 1) \<and>
   sample_model (coord_x 0) + [4, 4] ! 0 \<le> 8 \<and>
   sample_model (coord_y 1) + [3, 5] ! 1 \<le> sample_model ''l''"
proof -
  have h1: "(1::int) \<le> 2" and h2: "length [4, 4 :: int] = nat 2" and h3: "length [3, 5 :: int] = nat 2"
    and h4: "\<forall>w\<in>set [4, 4 :: int]. 0 < w \<and> w \<le> 8" and h5: "\<forall>h\<in>set [3, 5 :: int]. 0 < h"
    by simp_all
  note r = placements_separated_and_inside [OF h1 h2 h3 h4 h5 sample_commands sample_satisfies]
  have i0: "(0::nat) < nat 2" and i1: "(1::nat) < nat 2"
    by simp_all
  have "sample_model (coord_x 0) + [4, 4] ! 0 \<le> 8 \<and>
        sample_model (coord_y 1) + [3, 5] ! 1 \<le> sample_model ''l''"
    using conjunct2 [OF r, rule_format, OF i0] conjunct2 [OF r, rule_format, OF i1] by simp
  moreover have "sample_model (coord_x 0) - [4, 4] ! 1 \<ge> sample_model (coord_x 1)"
    by (simp add: sample_model_def eval_defs)
  ultimately show ?thesis
    using sample_commands sample_satisfies by simp
qed

text \<open>
  Claim C3. For \<open>W = 8\<close>, \<open>N = 2\<close>, \<open>widths = [4, 4]\<close>, \<open>heights = [3, 5]\<close> the script is
  generated (with the bounds \<open>4 \<le> l \<le> 8\<close>), every model has \<open>l \<ge> 5\<close>, and
  \<open>sample_model\<close> is a model with \<open>l = 5\<close> that puts item 1 at \<open>(0, 0)\<close> and item 0 at
  \<open>(4, 0)\<close>, separated by the third disjunct of the non-overlap constraint.
\<close>

theorem sample_instance_optimum:
  "build_commands 8 2 [4, 4] [3, 5] ''LIA'' = Inr (script 8 2 [4, 4] [3, 5] ''LIA'' 4 8) \<and>
   (\<forall>\<sigma>. satisfies \<sigma> (script 8 2 [4, 4] [3, 5] ''LIA'' 4 8) \<longrightarrow> 5 \<le> \<sigma> ''l'') \<and>
   satisfies sample_model (script 8 2 [4, 4] [3, 5] ''LIA'' 4 8) \<and>
   sample_model ''l'' = 5 \<and>
   sample_model (coord_x 1) = 0 \<and> sample_model (coord_y 1) = 0 \<and>
   sample_model (coord_x 0) = 4 \<and> sample_model (coord_y 0) = 0 \<and>
   sample_model (coord_x 0) - [4, 4] ! 1 \<ge> sample_model (coord_x 1)"
proof -
  have low: "5 \<le> \<sigma> ''l''" if sat: "satisfies \<sigma> (script 8 2 [4, 4] [3, 5] ''LIA'' 4 8)" for \<sigma>
  proof -
    have "holds \<sigma> (domain_y 8 [3, 5] 1)" and "holds \<sigma> (boundary 8 [4, 4] [3, 5] 1)"
      using sat unfolding satisfies_script by simp_all
    then show ?thesis
      unfolding holds_domain_y holds_boundary by simp
  qed
  have "sample_model ''l'' = 5 \<and>
   sample_model (coord_x 1) = 0 \<and> sample_model (coord_y 1) = 0 \<and>
   sample_model (coord_x 0) = 4 \<and> sample_model (coord_y 0) = 0 \<and>
   sample_model (coord_x 0) - [4, 4] ! 1 \<ge> sample_model (coord_x 1)"
    by (simp add: sample_model_def eval_defs)
  then show ?thesis
    using low sample_commands sample_satisfies by blast
qed

theorem sample_instance_optimum_witness: "5 \<le> sample_model ''l''"
  using sample_instance_optimum by blast

lemma index_of_props:
  "v \<in> set xs \<Longrightarrow>
     index_of xs v < length xs \<and> xs ! index_of xs v = v \<and> (\<forall>i<index_of xs v. xs ! i \<noteq> v)"
proof (induction xs)
  case Nil
  then show ?case by simp
next
  case (Cons x xs)
  show ?case
  proof (cases "x = v")
    case True
    then show ?thesis by simp
  next
    case False
    with Cons show ?thesis
      by (auto simp: nth_Cons split: nat.splits)
  qed
qed

lemma max_area_ind_props:
  assumes "0 < n" and k_def: "k = max_area_ind n widths heights"
  shows "k < n" and "\<forall>i<n. widths ! i * heights ! i \<le> widths ! k * heights ! k"
    and "\<forall>i<k. widths ! i * heights ! i < widths ! k * heights ! k"
proof -
  let ?as = "areas_of n widths heights"
  have len: "length ?as = n" and nth: "\<And>i. i < n \<Longrightarrow> ?as ! i = widths ! i * heights ! i"
    by (simp_all add: areas_of_def)
  from assms(1) len have ne: "set ?as \<noteq> {}"
    by auto
  then have mem: "Max (set ?as) \<in> set ?as"
    by (intro Max_in) simp_all
  from index_of_props [OF mem]
  have k: "k < n" and kmax: "?as ! k = Max (set ?as)" and first: "\<forall>i<k. ?as ! i \<noteq> Max (set ?as)"
    by (simp_all add: k_def max_area_ind_def len)
  have le: "?as ! i \<le> Max (set ?as)" if "i < n" for i
    using that len by (intro Max_ge) simp_all
  show "k < n" by (rule k)
  show "\<forall>i<n. widths ! i * heights ! i \<le> widths ! k * heights ! k"
    using le kmax k nth by metis
  show "\<forall>i<k. widths ! i * heights ! i < widths ! k * heights ! k"
  proof (intro allI impI)
    fix i assume "i < k"
    with k have "i < n" by simp
    with le [of i] first \<open>i < k\<close> have "?as ! i < Max (set ?as)"
      by (simp add: order_less_le)
    with kmax nth \<open>i < n\<close> k show "widths ! i * heights ! i < widths ! k * heights ! k"
      by metis
  qed
qed

lemma set_script:
  "set (script W n widths heights logic l_low l_up) \<supseteq>
     {same_size widths heights i j |i j. i < j \<and> j < n} \<union>
     {origin_x (max_area_ind n widths heights), origin_y (max_area_ind n widths heights)}"
  by (auto simp: script_def set_pairs)

text \<open>
  Claim C5. The generated script contains (a) for every pair \<open>i < j\<close> of items with the
  same width and the same height the assertion \<open>same_size\<close>, which in that case forces
  \<open>coord_x i \<le> coord_x j\<close>, and (b) for the first item \<open>k\<close> of maximum area the two
  assertions that force \<open>coord_x k = 0\<close> and \<open>coord_y k = 0\<close>.
\<close>

theorem symmetry_breaking_constraints:
  assumes "build_commands W N widths heights logic = Inr cs"
  shows "(\<forall>i j. i < j \<and> j < nat N \<and> widths ! i = widths ! j \<and> heights ! i = heights ! j \<longrightarrow>
            same_size widths heights i j \<in> set cs \<and>
            (\<forall>\<sigma>. holds \<sigma> (same_size widths heights i j) \<longrightarrow> \<sigma> (coord_x i) \<le> \<sigma> (coord_x j))) \<and>
         (\<exists>k<nat N.
            (\<forall>i<nat N. widths ! i * heights ! i \<le> widths ! k * heights ! k) \<and>
            (\<forall>i<k. widths ! i * heights ! i < widths ! k * heights ! k) \<and>
            origin_x k \<in> set cs \<and> origin_y k \<in> set cs \<and>
            (\<forall>\<sigma>. holds \<sigma> (origin_x k) \<longrightarrow> \<sigma> (coord_x k) = 0) \<and>
            (\<forall>\<sigma>. holds \<sigma> (origin_y k) \<longrightarrow> \<sigma> (coord_y k) = 0))"
proof -
  from assms obtain l_low where pos: "0 < nat N"
    and cs: "cs = script W (nat N) widths heights logic l_low (sum_list heights)"
    unfolding build_commands_Inr by blast
  have a: "same_size widths heights i j \<in> set cs" if "i < j" "j < nat N" for i j
    using that set_script [of widths heights "nat N" W logic l_low "sum_list heights"]
    unfolding cs by blast
  have b: "origin_x (max_area_ind (nat N) widths heights) \<in> set cs"
    "origin_y (max_area_ind (nat N) widths heights) \<in> set cs"
    using set_script [of widths heights "nat N" W logic l_low "sum_list heights"]
    unfolding cs by blast+
  have part1: "\<forall>i j. i < j \<and> j < nat N \<and> widths ! i = widths ! j \<and> heights ! i = heights ! j \<longrightarrow>
            same_size widths heights i j \<in> set cs \<and>
            (\<forall>\<sigma>. holds \<sigma> (same_size widths heights i j) \<longrightarrow> \<sigma> (coord_x i) \<le> \<sigma> (coord_x j))"
    using a by (simp add: holds_same_size)
  have part2: "\<exists>k<nat N.
            (\<forall>i<nat N. widths ! i * heights ! i \<le> widths ! k * heights ! k) \<and>
            (\<forall>i<k. widths ! i * heights ! i < widths ! k * heights ! k) \<and>
            origin_x k \<in> set cs \<and> origin_y k \<in> set cs \<and>
            (\<forall>\<sigma>. holds \<sigma> (origin_x k) \<longrightarrow> \<sigma> (coord_x k) = 0) \<and>
            (\<forall>\<sigma>. holds \<sigma> (origin_y k) \<longrightarrow> \<sigma> (coord_y k) = 0)"
    using max_area_ind_props [OF pos refl, of widths heights] b
    by (intro exI [of _ "max_area_ind (nat N) widths heights"]) (simp add: holds_origin_x holds_origin_y)
  from part1 part2 show ?thesis ..
qed

theorem symmetry_breaking_constraints_witness:
  "origin_x 1 \<in> set (script 8 2 [4, 4] [3, 5] ''LIA'' 4 8) \<and>
   origin_y 1 \<in> set (script 8 2 [4, 4] [3, 5] ''LIA'' 4 8)"
proof -
  from symmetry_breaking_constraints [OF sample_commands, of "''LIA''"]
  obtain k where k: "k < nat 2"
    and le: "\<forall>i<nat 2. [4, 4] ! i * [3, 5] ! i \<le> [4, 4 :: int] ! k * [3, 5] ! k"
    and mem: "origin_x k \<in> set (script 8 2 [4, 4] [3, 5] ''LIA'' 4 8)"
      "origin_y k \<in> set (script 8 2 [4, 4] [3, 5] ''LIA'' 4 8)"
    by blast
  from k have "k = 0 \<or> k = 1"
    by auto
  moreover have "k \<noteq> 0"
  proof
    assume "k = 0"
    have "(1::nat) < nat 2"
      by simp
    with le have "[4, 4] ! 1 * [3, 5] ! 1 \<le> [4, 4 :: int] ! k * [3, 5] ! k"
      by blast
    with \<open>k = 0\<close> show False
      by simp
  qed
  ultimately have "k = 1"
    by simp
  with mem show ?thesis
    by simp
qed

lemma count_list_map_inj:
  "(\<And>x. f x = f y \<Longrightarrow> x = y) \<Longrightarrow> count_list (map f xs) (f y) = count_list xs y"
  by (induction xs) auto

lemma cumulative_w_inj:
  "0 < n \<Longrightarrow> cumulative_w W n widths heights w = cumulative_w W n widths heights w' \<Longrightarrow> w = w'"
  by (cases n) (simp_all add: cumulative_w_def sum_var_w_def upt_conv_Cons)

lemma cumulative_h_inj:
  "0 < n \<Longrightarrow> cumulative_h n widths heights h = cumulative_h n widths heights h' \<Longrightarrow> h = h'"
  by (cases n) (simp_all add: cumulative_h_def sum_var_h_def upt_conv_Cons)

lemma cumulative_w_distinct:
  "domain_x W' ws i \<noteq> cumulative_w W n widths heights w"
  "domain_y u hs i \<noteq> cumulative_w W n widths heights w"
  "domain_l lo u \<noteq> cumulative_w W n widths heights w"
  "non_overlap ws hs i j \<noteq> cumulative_w W n widths heights w"
  "boundary W' ws hs i \<noteq> cumulative_w W n widths heights w"
  "cumulative_h m ws hs h \<noteq> cumulative_w W n widths heights w"
  "same_size ws hs i j \<noteq> cumulative_w W n widths heights w"
  "origin_x i \<noteq> cumulative_w W n widths heights w"
  "origin_y i \<noteq> cumulative_w W n widths heights w"
  "DeclareFun s \<noteq> cumulative_w W n widths heights w"
  "SetLogic s \<noteq> cumulative_w W n widths heights w"
  "CheckSat \<noteq> cumulative_w W n widths heights w"
  "GetModel \<noteq> cumulative_w W n widths heights w"
  by (simp_all add: cumulative_w_def domain_x_def domain_y_def domain_l_def non_overlap_def
      boundary_def cumulative_h_def same_size_def origin_x_def origin_y_def)

lemma cumulative_h_distinct:
  "domain_x W' ws i \<noteq> cumulative_h n widths heights h"
  "domain_y u hs i \<noteq> cumulative_h n widths heights h"
  "domain_l lo u \<noteq> cumulative_h n widths heights h"
  "non_overlap ws hs i j \<noteq> cumulative_h n widths heights h"
  "boundary W' ws hs i \<noteq> cumulative_h n widths heights h"
  "cumulative_w W' m ws hs w \<noteq> cumulative_h n widths heights h"
  "same_size ws hs i j \<noteq> cumulative_h n widths heights h"
  "origin_x i \<noteq> cumulative_h n widths heights h"
  "origin_y i \<noteq> cumulative_h n widths heights h"
  "DeclareFun s \<noteq> cumulative_h n widths heights h"
  "SetLogic s \<noteq> cumulative_h n widths heights h"
  "CheckSat \<noteq> cumulative_h n widths heights h"
  "GetModel \<noteq> cumulative_h n widths heights h"
  by (simp_all add: cumulative_w_def domain_x_def domain_y_def domain_l_def non_overlap_def
      boundary_def cumulative_h_def same_size_def origin_x_def origin_y_def)

lemma count_list_map_other:
  "(\<And>x. f x \<noteq> c) \<Longrightarrow> count_list (map f xs) c = 0"
  by (induction xs) simp_all

lemma count_cumulative_w:
  assumes "0 < n"
  shows "count_list (script W n widths heights logic l_low l_up) (cumulative_w W n widths heights w)
           = count_list widths w"
proof -
  let ?c = "cumulative_w W n widths heights w"
  have here: "count_list (map (cumulative_w W n widths heights) widths) ?c = count_list widths w"
    by (rule count_list_map_inj) (use assms cumulative_w_inj in blast)
  have z1: "count_list (map (\<lambda>i. DeclareFun (coord_x i)) [0..<n]) ?c = 0"
    and z2: "count_list (map (\<lambda>i. DeclareFun (coord_y i)) [0..<n]) ?c = 0"
    and z3: "count_list (map (domain_x W widths) [0..<n]) ?c = 0"
    and z4: "count_list (map (domain_y l_up heights) [0..<n]) ?c = 0"
    and z5: "count_list (map (\<lambda>(i, j). non_overlap widths heights i j) (pairs n)) ?c = 0"
    and z6: "count_list (map (boundary W widths heights) [0..<n]) ?c = 0"
    and z7: "count_list (map (cumulative_h n widths heights) heights) ?c = 0"
    and z8: "count_list (map (\<lambda>(i, j). same_size widths heights i j) (pairs n)) ?c = 0"
    by (rule count_list_map_other, simp add: cumulative_w_distinct split: prod.splits)+
  show ?thesis
    unfolding script_def count_list_append here z1 z2 z3 z4 z5 z6 z7 z8
    by (simp add: cumulative_w_distinct)
qed

lemma count_cumulative_h:
  assumes "0 < n"
  shows "count_list (script W n widths heights logic l_low l_up) (cumulative_h n widths heights h)
           = count_list heights h"
proof -
  let ?c = "cumulative_h n widths heights h"
  have here: "count_list (map (cumulative_h n widths heights) heights) ?c = count_list heights h"
    by (rule count_list_map_inj) (use assms cumulative_h_inj in blast)
  have z1: "count_list (map (\<lambda>i. DeclareFun (coord_x i)) [0..<n]) ?c = 0"
    and z2: "count_list (map (\<lambda>i. DeclareFun (coord_y i)) [0..<n]) ?c = 0"
    and z3: "count_list (map (domain_x W widths) [0..<n]) ?c = 0"
    and z4: "count_list (map (domain_y l_up heights) [0..<n]) ?c = 0"
    and z5: "count_list (map (\<lambda>(i, j). non_overlap widths heights i j) (pairs n)) ?c = 0"
    and z6: "count_list (map (boundary W widths heights) [0..<n]) ?c = 0"
    and z7: "count_list (map (cumulative_w W n widths heights) widths) ?c = 0"
    and z8: "count_list (map (\<lambda>(i, j). same_size widths heights i j) (pairs n)) ?c = 0"
    by (rule count_list_map_other, simp add: cumulative_h_distinct split: prod.splits)+
  show ?thesis
    unfolding script_def count_list_append here z1 z2 z3 z4 z5 z6 z7 z8
    by (simp add: cumulative_h_distinct)
qed

text \<open>
  Claim C2, as the code has it. The script holds one cumulative constraint per element of
  \<open>widths\<close> and one per element of \<open>heights\<close>, so a value that occurs \<open>k\<close> times gives
  \<open>k\<close> copies of its constraint. The constraint of a width value \<open>w\<close> bounds by \<open>W\<close>
  the sum of the widths of the items whose vertical span \<open>[y, y + height)\<close> contains
  the level \<open>w\<close>; the constraint of a height value \<open>h\<close> bounds by \<open>l\<close> the sum of the
  heights of the items whose horizontal span \<open>[x, x + width)\<close> contains the level \<open>h\<close>.
\<close>

theorem cumulative_constraints_per_item:
  assumes "build_commands W N widths heights logic = Inr cs"
  shows "(\<forall>w. count_list cs (cumulative_w W (nat N) widths heights w) = count_list widths w) \<and>
         (\<forall>h. count_list cs (cumulative_h (nat N) widths heights h) = count_list heights h) \<and>
         (\<forall>\<sigma> w. holds \<sigma> (cumulative_w W (nat N) widths heights w) \<longleftrightarrow>
            (\<Sum>i\<leftarrow>[0..<nat N]. if \<sigma> (coord_y i) \<le> w \<and> w < \<sigma> (coord_y i) + heights ! i
                                then widths ! i else 0) \<le> W) \<and>
         (\<forall>\<sigma> h. holds \<sigma> (cumulative_h (nat N) widths heights h) \<longleftrightarrow>
            (\<Sum>i\<leftarrow>[0..<nat N]. if \<sigma> (coord_x i) \<le> h \<and> h < \<sigma> (coord_x i) + widths ! i
                                then heights ! i else 0) \<le> \<sigma> ''l'')"
proof -
  from assms obtain l_low where pos: "0 < nat N"
    and cs: "cs = script W (nat N) widths heights logic l_low (sum_list heights)"
    unfolding build_commands_Inr by blast
  show ?thesis
    unfolding cs by (simp add: count_cumulative_w [OF pos] count_cumulative_h [OF pos]
        holds_cumulative_w holds_cumulative_h)
qed

theorem cumulative_constraints_per_item_witness:
  "count_list (script 8 2 [4, 4] [3, 5] ''LIA'' 4 8) (cumulative_w 8 (nat 2) [4, 4] [3, 5] 4)
     = count_list [4, 4 :: int] 4"
  by (rule cumulative_constraints_per_item [OF sample_commands, THEN conjunct1, THEN spec])

lemma stacked_commands:
  "build_commands 2 2 [1, 1] [3, 3] logic = Inr (script 2 2 [1, 1] [3, 3] logic 3 6)"
  by (simp add: build_commands_def eval_defs)

lemma stacked_satisfies: "satisfies stacked_model (script 2 2 [1, 1] [3, 3] logic 3 6)"
  by (simp add: satisfies_def script_def script_defs apply_op_def int_rel_def ite_val_def
      stacked_model_def eval_defs)

text \<open>
  Claim C2 as stated fails on the instance \<open>W = 2\<close>, \<open>widths = [1, 1]\<close>,
  \<open>heights = [3, 3]\<close>: the constraint of the width value 1 is asserted twice, not once;
  the constraint in the specification's wording (sum of heights against \<open>W\<close>) is not in
  the script, and the model \<open>stacked_model\<close> of the whole script violates it.
\<close>

theorem cumulative_claim_counterexample:
  "build_commands 2 2 [1, 1] [3, 3] ''LIA'' = Inr (script 2 2 [1, 1] [3, 3] ''LIA'' 3 6) \<and>
   count_list (script 2 2 [1, 1] [3, 3] ''LIA'' 3 6) (cumulative_w 2 2 [1, 1] [3, 3] 1) = 2 \<and>
   count_list (script 2 2 [1, 1] [3, 3] ''LIA'' 3 6) (spec_cumulative_w 2 2 [1, 1] [3, 3] 1) = 0 \<and>
   satisfies stacked_model (script 2 2 [1, 1] [3, 3] ''LIA'' 3 6) \<and>
   \<not> holds stacked_model (spec_cumulative_w 2 2 [1, 1] [3, 3] 1)"
proof -
  have "count_list (script 2 2 [1, 1] [3, 3] ''LIA'' 3 6) (cumulative_w 2 2 [1, 1] [3, 3] 1) = 2"
    by (simp add: count_cumulative_w)
  moreover have "count_list (script 2 2 [1, 1] [3, 3] ''LIA'' 3 6) (spec_cumulative_w 2 2 [1, 1] [3, 3] 1) = 0"
    by (simp add: script_def script_defs spec_cumulative_w_def eval_defs)
  moreover have "\<not> holds stacked_model (spec_cumulative_w 2 2 [1, 1] [3, 3] 1)"
    by (simp add: spec_cumulative_w_def apply_op_def int_rel_def ite_val_def stacked_model_def eval_defs)
  ultimately show ?thesis
    using stacked_commands stacked_satisfies by simp
qed

text \<open>
  The effect on the file system. A call that returns has replaced the content of
  \<open>model_path\<close> by the rendering of the commands, whatever was there before, and has
  touched no other file; a call whose \<^verbatim>\<open>open\<close> raises ends with that exception and
  leaves the file system as it was. That two calls with equal arguments build equal
  lines is built into the embedding, where \<open>build_commands\<close> is a function of the
  arguments, and is not stated as a theorem.
\<close>

lemma model_file_written:
  assumes "build_SMTLIB_model fs W N widths heights logic = (Inr (), fs')"
  shows "\<exists>cs. build_commands W N widths heights logic = Inr cs \<and>
           open_error fs model_path = None \<and>
           contents fs' model_path = Some (render cs) \<and>
           (\<forall>p. p \<noteq> model_path \<longrightarrow> contents fs' p = contents fs p)"
  using assms by (auto simp: build_SMTLIB_model_def split: sum.splits option.splits)

lemma model_file_not_opened:
  assumes "build_commands W N widths heights logic = Inr cs"
    and "open_error fs model_path = Some e"
  shows "build_SMTLIB_model fs W N widths heights logic = (Inl e, fs)"
  using assms by (simp add: build_SMTLIB_model_def)

lemma sample_missing_directory:
  "build_SMTLIB_model \<lparr>contents = Map.empty, open_error = (\<lambda>p. Some FileNotFoundError)\<rparr>
       8 2 [4, 4] [3, 5] ''LIA''
     = (Inl FileNotFoundError, \<lparr>contents = Map.empty, open_error = (\<lambda>p. Some FileNotFoundError)\<rparr>)"
  by (simp add: build_SMTLIB_model_def sample_commands)

text \<open>
  For one item the assertions leave a single candidate model: the item at the origin and
  \<open>l\<close> equal to its height. It is a model exactly when the lower bound the encoder
  computed is not above that height.
\<close>

lemma single_item_area: "areas_of (Suc 0) [w] [h] = [w * h]"
  by (simp add: areas_of_def)

lemma single_item_models:
  assumes "build_commands W 1 [w] [h] logic = Inr cs" and "satisfies \<sigma> cs"
  shows "\<sigma> (coord_x 0) = 0 \<and> \<sigma> (coord_y 0) = 0 \<and> \<sigma> ''l'' = h"
proof -
  from assms(1) obtain l_low where cs: "cs = script W (nat 1) [w] [h] logic l_low (sum_list [h])"
    unfolding build_commands_Inr by blast
  have k: "max_area_ind (Suc 0) [w] [h] = 0"
    by (simp add: max_area_ind_def single_item_area)
  from assms(2) have "holds \<sigma> (origin_x 0)" and "holds \<sigma> (origin_y 0)"
    and "holds \<sigma> (domain_l l_low h)" and "holds \<sigma> (boundary W [w] [h] 0)"
    unfolding cs satisfies_script by (simp_all add: k)
  then show ?thesis
    unfolding holds_origin_x holds_origin_y holds_domain_l holds_boundary by simp
qed

lemma single_item_satisfiable:
  assumes "0 < w" and "w \<le> W" and "0 < h"
    and "py_ceil_truediv (w * h) W = Inr l_low" and "l_low \<le> h"
  shows "build_commands W 1 [w] [h] logic = Inr (script W 1 [w] [h] logic l_low h) \<and>
         satisfies (\<lambda>s. if s = ''l'' then h else 0) (script W 1 [w] [h] logic l_low h)"
proof -
  have k: "max_area_ind (Suc 0) [w] [h] = 0"
    by (simp add: max_area_ind_def single_item_area)
  have "build_commands W 1 [w] [h] logic = Inr (script W 1 [w] [h] logic l_low h)"
    using assms(4) by (simp add: build_commands_def single_item_area)
  moreover have "satisfies (\<lambda>s. if s = ''l'' then h else 0) (script W 1 [w] [h] logic l_low h)"
    unfolding satisfies_script holds_domain_x holds_domain_y holds_domain_l holds_non_overlap
      holds_boundary holds_cumulative_w holds_cumulative_h holds_same_size holds_origin_x
      holds_origin_y
    using assms by (simp add: k coord_x_def coord_y_def)
  ultimately show ?thesis ..
qed

text \<open>
  Claim C4 at the instance \<open>W = 1\<close>, \<open>widths = [1]\<close>, \<open>heights = [2 ^ 53 + 3]\<close>:
  the quotient \<^verbatim>\<open>9007199254740995 / 1\<close> is rounded to the double \<open>9007199254740996\<close>, so the
  script asserts \<open>9007199254740996 \<le> l \<le> 9007199254740995\<close> and has no model.
\<close>

theorem single_item_rounding_failure:
  "build_commands 1 1 [1] [9007199254740995] ''LIA''
     = Inr (script 1 1 [1] [9007199254740995] ''LIA'' 9007199254740996 9007199254740995) \<and>
   (\<forall>\<sigma>. \<not> satisfies \<sigma> (script 1 1 [1] [9007199254740995] ''LIA'' 9007199254740996 9007199254740995))"
proof -
  have "\<not> satisfies \<sigma> (script 1 1 [1] [9007199254740995] ''LIA'' 9007199254740996 9007199254740995)" for \<sigma>
  proof
    assume "satisfies \<sigma> (script 1 1 [1] [9007199254740995] ''LIA'' 9007199254740996 9007199254740995)"
    then have "holds \<sigma> (domain_l 9007199254740996 9007199254740995)"
      unfolding satisfies_script by blast
    then have "(9007199254740996 :: int) \<le> \<sigma> ''l''" and "\<sigma> ''l'' \<le> 9007199254740995"
      unfolding holds_domain_l by blast+
    then have "(9007199254740996 :: int) \<le> 9007199254740995"
      by (rule order_trans)
    then show False
      by simp
  qed
  moreover have "build_commands 1 1 [1] [9007199254740995] ''LIA''
     = Inr (script 1 1 [1] [9007199254740995] ''LIA'' 9007199254740996 9007199254740995)"
    by (simp add: build_commands_def single_item_area py_ceil_truediv_def double_of_quot_def
        floor_log2_quot_def bit_length.simps round_half_even_def Let_def)
  ultimately show ?thesis by blast
qed

section \<open>Properties of the MIP driver and the reporter\<close>

lemma bind_Inr: "bind m f = Inr y \<longleftrightarrow> (\<exists>x. m = Inr x \<and> f x = Inr y)"
  by (cases m) (simp_all add: bind_def)

lemma py_set_length: "py_set xs k v = Inr xs' \<Longrightarrow> length xs' = length xs"
  by (auto simp: py_set_def Let_def split: if_splits)

lemma read_variables_lengths:
  "read_variables f vs (rot, xs, ys) = Inr (rot', xs', ys') \<Longrightarrow>
     length rot' = length rot \<and> length xs' = length xs \<and> length ys' = length ys"
proof (induction vs arbitrary: rot xs ys)
  case Nil
  then show ?case by simp
next
  case (Cons a vs)
  obtain name v where a: "a = (name, v)"
    by (cases a)
  from Cons.prems show ?case
    unfolding a
    by (auto simp: bind_Inr split: if_splits dest!: Cons.IH py_set_length)
qed

lemma read_variables_no_rot:
  "read_variables f vs (rot, xs, ys) = Inr (rot', xs', ys') \<Longrightarrow>
     \<forall>a\<in>set vs. \<not> starts_with ''rot'' (fst a) \<Longrightarrow> rot' = rot"
proof (induction vs arbitrary: xs ys)
  case Nil
  then show ?case by simp
next
  case (Cons a vs)
  obtain name v where a: "a = (name, v)"
    by (cases a)
  from Cons.prems show ?case
    unfolding a
    by (auto simp: bind_Inr split: if_splits dest!: Cons.IH)
qed

lemma decode_admissible:
  assumes "decode B sol0 N res = Inr sol" and "SOLUTION_ADMISSABLE (status sol)" and "1 \<le> N"
  shows "\<exists>r. rotation sol = Some r \<and> length r = nat N \<and>
           ((\<forall>a\<in>set (variables res). \<not> starts_with ''rot'' (fst a)) \<longrightarrow> r = replicate (nat N) False)"
proof -
  from assms(1) obtain st t where st: "status_enum B (sol_status res) = Inr st"
    and rest: "(if SOLUTION_ADMISSABLE (Some st) then
         bind (py_round (objective res)) (\<lambda>h.
         bind (read_variables (int_of_str B) (variables res)
                 (replicate (nat N) False, replicate (nat N) None, replicate (nat N) None))
           (\<lambda>(rot, xs, ys).
              Inr (sol0\<lparr>status := Some st, solve_time := Some t, height := Some h,
                       coords := Some (xs, ys),
                       rotation := (if 0 < length rot then Some rot else None)\<rparr>)))
       else Inr (sol0\<lparr>status := Some st, solve_time := Some t\<rparr>)) = Inr sol"
    unfolding decode_def bind_Inr by blast
  have adm: "SOLUTION_ADMISSABLE (Some st)"
  proof (rule ccontr)
    assume "\<not> SOLUTION_ADMISSABLE (Some st)"
    with rest have "sol = sol0\<lparr>status := Some st, solve_time := Some t\<rparr>"
      by simp
    with assms(2) \<open>\<not> SOLUTION_ADMISSABLE (Some st)\<close> show False
      by simp
  qed
  with rest obtain h rot xs ys where
    rv: "read_variables (int_of_str B) (variables res)
           (replicate (nat N) False, replicate (nat N) None, replicate (nat N) None) = Inr (rot, xs, ys)"
    and sol: "sol = sol0\<lparr>status := Some st, solve_time := Some t, height := Some h,
                       coords := Some (xs, ys),
                       rotation := (if 0 < length rot then Some rot else None)\<rparr>"
    by (auto simp: bind_Inr)
  from read_variables_lengths [OF rv] have len: "length rot = nat N"
    by simp
  with assms(3) have "rotation sol = Some rot"
    by (simp add: sol)
  moreover have "rot = replicate (nat N) False"
    if "\<forall>a\<in>set (variables res). \<not> starts_with ''rot'' (fst a)"
    using read_variables_no_rot [OF rv that] .
  ultimately show ?thesis
    using len by blast
qed

lemma instance_fields_simps:
  "n_circuits (instance_fields name W N widths heights :: 't Solution) = Some N"
  "input_name (instance_fields name W N widths heights :: 't Solution) = Some name"
  "width (instance_fields name W N widths heights :: 't Solution) = Some W"
  "circuits (instance_fields name W N widths heights :: 't Solution)
     = Some (map (\<lambda>i. (widths ! i, heights ! i)) [0..<nat N])"
  "status (instance_fields name W N widths heights :: 't Solution) = None"
  "height (instance_fields name W N widths heights :: 't Solution) = None"
  "solve_time (instance_fields name W N widths heights :: 't Solution) = None"
  "coords (instance_fields name W N widths heights :: 't Solution) = None"
  "rotation (instance_fields name W N widths heights :: 't Solution) = None"
  by (simp_all add: instance_fields_def empty_solution_def)

lemma decode_n_circuits: "decode B sol0 N res = Inr sol \<Longrightarrow> n_circuits sol = n_circuits sol0"
  by (auto simp: decode_def bind_Inr split: if_splits)

text \<open>
  Claim C6. When the instance is loaded, the model built and the solver configured, and
  \<^verbatim>\<open>prob.solve\<close> raises any exception \<open>err\<close>, \<open>run_mip_solver\<close> logs it and returns a
  solution (it raises nothing) whose status is ERROR, with \<^verbatim>\<open>input_name\<close>, \<^verbatim>\<open>width\<close>,
  \<^verbatim>\<open>n_circuits\<close> and \<^verbatim>\<open>circuits\<close> populated and with coordinates, height, rotation and
  solve time unset.
\<close>

theorem solver_exception_becomes_error_status:
  assumes "extract_input B name = Inr (W, N, widths, heights)"
    and "nat N \<le> length widths" and "nat N \<le> length heights"
    and "select_model B model_type W N widths heights = Inr prob"
    and "select_solver B solver timeout = Inr cfg"
    and "solve B prob cfg = Inl err"
  shows "\<exists>sol. run_mip_solver B name model_type solver timeout = ([err], Inr sol) \<and>
           status sol = Some ERROR \<and>
           input_name sol = Some name \<and> width sol = Some W \<and> n_circuits sol = Some N \<and>
           circuits sol = Some (map (\<lambda>i. (widths ! i, heights ! i)) [0..<nat N]) \<and>
           coords sol = None \<and> height sol = None \<and> rotation sol = None \<and> solve_time sol = None"
  using assms by (simp add: run_mip_solver_def instance_fields_simps)


lemmas demo_defs = demo_backend_def demo_solved_def select_model_def select_solver_def

theorem solver_exception_becomes_error_status_witness:
  "\<exists>sol. run_mip_solver (demo_backend (Inl (BaseException ''license''))) ''ins-1'' BASE CPLEX 300
            = ([BaseException ''license''], Inr sol) \<and>
          status sol = Some ERROR \<and> input_name sol = Some ''ins-1'' \<and> width sol = Some 8 \<and>
          n_circuits sol = Some 2 \<and>
          circuits sol = Some (map (\<lambda>i. ([4, 4] ! i, [3, 5] ! i)) [0..<nat 2]) \<and>
          coords sol = None \<and> height sol = None \<and> rotation sol = None \<and> solve_time sol = None"
proof -
  let ?B = "demo_backend (Inl (BaseException ''license''))"
  have h1: "extract_input ?B ''ins-1'' = Inr (8, 2, [4, 4], [3, 5])"
    and h2: "nat 2 \<le> length [4, 4 :: int]" and h3: "nat 2 \<le> length [3, 5 :: int]"
    and h4: "select_model ?B BASE 8 2 [4, 4] [3, 5] = Inr ()"
    and h5: "select_solver ?B CPLEX 300 = Inr ()"
    and h6: "solve ?B () () = Inl (BaseException ''license'')"
    by (simp_all add: demo_defs)
  show ?thesis
    by (rule solver_exception_becomes_error_status [OF h1 h2 h3 h4 h5 h6])
qed

text \<open>
  Claim C9. Whenever \<open>run_mip_solver\<close> returns a solution with an admissible status for
  \<open>N \<ge> 1\<close> circuits, \<^verbatim>\<open>sol.rotation\<close> is a list of exactly \<open>N\<close> Booleans, never \<open>None\<close>;
  when the solved problem has no variable whose name starts with \<^verbatim>\<open>rot\<close>, as in the base
  model, every entry is \<open>False\<close>.
\<close>

theorem admissible_rotation_is_list:
  assumes "run_mip_solver B name model_type solver timeout = (errs, Inr sol)"
    and "SOLUTION_ADMISSABLE (status sol)"
    and "n_circuits sol = Some N" and "1 \<le> N"
  shows "\<exists>r. rotation sol = Some r \<and> length r = nat N \<and>
           ((\<forall>W N' widths heights prob cfg res.
               extract_input B name = Inr (W, N', widths, heights) \<longrightarrow>
               select_model B model_type W N' widths heights = Inr prob \<longrightarrow>
               select_solver B solver timeout = Inr cfg \<longrightarrow>
               solve B prob cfg = Inr res \<longrightarrow>
               (\<forall>a\<in>set (variables res). \<not> starts_with ''rot'' (fst a)))
            \<longrightarrow> r = replicate (nat N) False)"
proof -
  from assms(1) obtain W N' widths heights prob cfg where
    ex: "extract_input B name = Inr (W, N', widths, heights)"
    and mo: "select_model B model_type W N' widths heights = Inr prob"
    and so: "select_solver B solver timeout = Inr cfg"
    and run: "(case solve B prob cfg of
                 Inl err \<Rightarrow> ([err], Inr ((instance_fields name W N' widths heights)\<lparr>status := Some ERROR\<rparr>))
               | Inr res \<Rightarrow> ([], decode B (instance_fields name W N' widths heights) N' res))
              = (errs, Inr sol)"
    by (auto simp: run_mip_solver_def split: sum.splits if_splits)
  show ?thesis
  proof (cases "solve B prob cfg")
    case (Inl err)
    with run have "status sol = Some ERROR"
      by auto
    with assms(2) show ?thesis
      by (simp add: SOLUTION_ADMISSABLE_def)
  next
    case (Inr res)
    with run have dec: "decode B (instance_fields name W N' widths heights) N' res = Inr sol"
      by simp
    from decode_n_circuits [OF dec] assms(3) have "N' = N"
      by (simp add: instance_fields_simps)
    with decode_admissible [OF dec assms(2)] assms(4) obtain r where
      r: "rotation sol = Some r" "length r = nat N"
        "(\<forall>a\<in>set (variables res). \<not> starts_with ''rot'' (fst a)) \<longrightarrow> r = replicate (nat N) False"
      by auto
    from r(3) ex mo so Inr have
      "(\<forall>W N' widths heights prob cfg res.
               extract_input B name = Inr (W, N', widths, heights) \<longrightarrow>
               select_model B model_type W N' widths heights = Inr prob \<longrightarrow>
               select_solver B solver timeout = Inr cfg \<longrightarrow>
               solve B prob cfg = Inr res \<longrightarrow>
               (\<forall>a\<in>set (variables res). \<not> starts_with ''rot'' (fst a)))
            \<longrightarrow> r = replicate (nat N) False"
      by blast
    with r(1,2) show ?thesis
      by blast
  qed
qed

lemma demo_run:
  "run_mip_solver (demo_backend (Inr demo_solved)) ''ins-1'' BASE CPLEX 300 =
     ([], Inr \<lparr>status = Some OPTIMAL, input_name = Some ''ins-1'', width = Some 8,
               n_circuits = Some 2, circuits = Some [(4, 3), (4, 5)], height = Some 5,
               solve_time = Some 3, coords = Some ([Some 4, Some 0], [Some 0, Some 0]),
               rotation = Some [False, False]\<rparr>)"
  by (simp add: run_mip_solver_def demo_defs decode_def bind_def SOLUTION_ADMISSABLE_def
      py_round_def py_set_def starts_with_def instance_fields_def empty_solution_def
      upt_rec numeral_2_eq_2)

theorem admissible_rotation_is_list_witness:
  "\<exists>r. Some [False, False] = Some r \<and> length r = nat 2"
proof -
  let ?sol = "\<lparr>status = Some OPTIMAL, input_name = Some ''ins-1'', width = Some 8,
               n_circuits = Some 2, circuits = Some [(4, 3), (4, 5)], height = Some 5,
               solve_time = Some (3::int), coords = Some ([Some 4, Some 0], [Some 0, Some 0]),
               rotation = Some [False, False]\<rparr>"
  have h2: "SOLUTION_ADMISSABLE (status ?sol)" and h3: "n_circuits ?sol = Some 2" and h4: "(1::int) \<le> 2"
    by (simp_all add: SOLUTION_ADMISSABLE_def)
  from admissible_rotation_is_list [OF demo_run h2 h3 h4] show ?thesis
    by auto
qed






lemma find_solution_events: "find_solution B name model_type solver timeout = (evs, r) \<Longrightarrow>
    Plotted s f \<notin> set evs"
  by (auto simp: find_solution_def split: if_splits prod.splits)

lemma call_with_two_arguments:
  "call_print_logging [SolutionArg sol, BoolArg verbose] = ([], Inl TypeError)"
  by (simp add: call_print_logging_def)

text \<open>
  Claim C10 as stated fails: an invocation in which an earlier call raises ends with that
  exception, not with TypeError. With an instance file that does not exist the loader's
  FileNotFoundError comes out of \<open>compute_solution\<close>; with a model type that is neither
  BASE nor ROTATION it is the BaseException of \<open>run_mip_solver\<close>.
\<close>

theorem type_error_on_every_invocation_counterexample:
  "compute_solution missing_instance_backend ''ins-99'' BASE CPLEX 300 True
     = ([], Inl FileNotFoundError) \<and>
   compute_solution (demo_backend (Inr demo_solved)) ''ins-1'' OTHER_MODEL CPLEX 300 True
     = ([], Inl (BaseException ''Model type not available''))"
  by (simp add: compute_solution_def find_solution_def run_mip_solver_def
      missing_instance_backend_def demo_defs)

text \<open>
  Claim C10, as the code has it. Whenever \<open>compute_solution\<close> has a solution in hand, from
  either solver route and for either verbosity flag, the call \<^verbatim>\<open>print_logging(sol, verbose)\<close>
  raises TypeError and nothing is printed. An invocation in which \<^verbatim>\<open>format_plot_file\<close> or
  the solver run raises ends with that exception, and one in which no branch binds
  \<^verbatim>\<open>sol\<close> ends with UnboundLocalError. No invocation at all returns a solution or
  reaches \<^verbatim>\<open>plot_solution\<close>.
\<close>

theorem compute_solution_raises_type_error:
  "(\<forall>plot_file evs sol.
      format_plot_file B name model_type = Inr plot_file \<longrightarrow>
      find_solution B name model_type solver timeout = (evs, Inr (Some sol)) \<longrightarrow>
      compute_solution B name model_type solver timeout verbose = (evs, Inl TypeError)) \<and>
   (\<forall>sol. snd (compute_solution B name model_type solver timeout verbose) \<noteq> Inr sol) \<and>
   (\<forall>sol plot_file.
      Plotted sol plot_file \<notin> set (fst (compute_solution B name model_type solver timeout verbose))) \<and>
   (\<forall>e. format_plot_file B name model_type = Inl e \<longrightarrow>
      compute_solution B name model_type solver timeout verbose = ([], Inl e)) \<and>
   (\<forall>plot_file evs e.
      format_plot_file B name model_type = Inr plot_file \<longrightarrow>
      find_solution B name model_type solver timeout = (evs, Inl e) \<longrightarrow>
      compute_solution B name model_type solver timeout verbose = (evs, Inl e)) \<and>
   (\<forall>plot_file evs.
      format_plot_file B name model_type = Inr plot_file \<longrightarrow>
      find_solution B name model_type solver timeout = (evs, Inr None) \<longrightarrow>
      compute_solution B name model_type solver timeout verbose = (evs, Inl UnboundLocalError))"
proof -
  note call = call_with_two_arguments
  obtain evs r where fs: "find_solution B name model_type solver timeout = (evs, r)"
    by (cases "find_solution B name model_type solver timeout")
  note ev = find_solution_events [OF fs]
  have a: "\<forall>plot_file evs sol.
      format_plot_file B name model_type = Inr plot_file \<longrightarrow>
      find_solution B name model_type solver timeout = (evs, Inr (Some sol)) \<longrightarrow>
      compute_solution B name model_type solver timeout verbose = (evs, Inl TypeError)"
    by (simp add: compute_solution_def call)
  have b: "snd (compute_solution B name model_type solver timeout verbose) \<noteq> Inr sol" for sol
    using fs by (simp add: compute_solution_def call split: sum.splits option.splits)
  have c: "Plotted sol plot_file
             \<notin> set (fst (compute_solution B name model_type solver timeout verbose))" for sol plot_file
    using fs ev by (simp add: compute_solution_def call split: sum.splits option.splits)
  have d: "\<forall>e. format_plot_file B name model_type = Inl e \<longrightarrow>
      compute_solution B name model_type solver timeout verbose = ([], Inl e)"
    by (simp add: compute_solution_def)
  have e: "\<forall>plot_file evs e.
      format_plot_file B name model_type = Inr plot_file \<longrightarrow>
      find_solution B name model_type solver timeout = (evs, Inl e) \<longrightarrow>
      compute_solution B name model_type solver timeout verbose = (evs, Inl e)"
    by (simp add: compute_solution_def)
  have f: "\<forall>plot_file evs.
      format_plot_file B name model_type = Inr plot_file \<longrightarrow>
      find_solution B name model_type solver timeout = (evs, Inr None) \<longrightarrow>
      compute_solution B name model_type solver timeout verbose = (evs, Inl UnboundLocalError)"
    by (simp add: compute_solution_def)
  from a b c d e f show ?thesis
    by blast
qed

theorem compute_solution_raises_type_error_witness:
  "compute_solution (demo_backend (Inr demo_solved)) ''ins-1'' BASE CPLEX 300 True = ([], Inl TypeError)"
proof -
  have h1: "format_plot_file (demo_backend (Inr demo_solved)) ''ins-1'' BASE = Inr ''plot''"
    by (simp add: demo_backend_def)
  have h2: "find_solution (demo_backend (Inr demo_solved)) ''ins-1'' BASE CPLEX 300 =
     ([], Inr (Some \<lparr>status = Some OPTIMAL, input_name = Some ''ins-1'', width = Some 8,
               n_circuits = Some 2, circuits = Some [(4, 3), (4, 5)], height = Some 5,
               solve_time = Some 3, coords = Some ([Some 4, Some 0], [Some 0, Some 0]),
               rotation = Some [False, False]\<rparr>))"
    by (simp add: find_solution_def demo_run)
  from compute_solution_raises_type_error [of "demo_backend (Inr demo_solved)" "''ins-1''" BASE CPLEX 300 True]
    h1 h2 show ?thesis
    by blast
qed

end
